theory Spec2Isabelle
  imports Complex_Main
begin

section \<open>The movement controller of \<^verbatim>\<open>src/server/movement_controller.py\<close>\<close>

text \<open>
  The controller drives five stepper axes. Every \<^verbatim>\<open>Position\<close> holds one Python float
  \<^verbatim>\<open>pos\<close>, an IEEE 754 binary64 number. A float is modelled by its value: a finite
  double by the rational number it denotes, besides the two infinities and NaN; every
  arithmetic operation rounds its exact result to the nearest double, ties to even, as the
  hardware does. A value \<open>Fin r\<close> stands for a double when \<open>round_double r = Fin r\<close>; the
  theorems below that speak of all floats hold for every \<open>r\<close>. The two zeros \<^verbatim>\<open>0.0\<close> and \<^verbatim>\<open>-0.0\<close> are one value \<open>Fin 0\<close>: \<^verbatim>\<open>+\<close>,
  \<^verbatim>\<open>-\<close>, \<^verbatim>\<open>/\<close>, \<^verbatim>\<open>abs\<close>, \<^verbatim>\<open><\<close> and \<^verbatim>\<open><=\<close> with a non-zero divisor do not tell them apart.
  Calls of \<^verbatim>\<open>logging\<close> have no effect on positions or signals and are left out. Every
  \<^verbatim>\<open>raise\<close> of the source is a value \<open>Inl e\<close> of the result type.
\<close>

subsection \<open>Errors\<close>

datatype error = TypeError | KeyError string | ZeroDivisionError

definition bind_err :: "error + 'a \<Rightarrow> ('a \<Rightarrow> error + 'b) \<Rightarrow> error + 'b" where
  "bind_err m f = (case m of Inl e \<Rightarrow> Inl e | Inr v \<Rightarrow> f v)"

subsection \<open>Python floats\<close>

datatype pyfloat = Fin rat | PInf | NInf | NaN

text \<open>\<open>bit_length n\<close> is Python's \<^verbatim>\<open>n.bit_length()\<close>; \<open>ilog2 x\<close> is the exponent \<open>e\<close> with
  \<open>2\<^sup>e \<le> x < 2\<^sup>e\<^sup>+\<^sup>1\<close> of a positive rational \<open>x\<close>.\<close>

fun bit_length :: "nat \<Rightarrow> nat" where
  "bit_length n = (if n = 0 then 0 else Suc (bit_length (n div 2)))"

declare bit_length.simps [simp del]

definition ilog2 :: "rat \<Rightarrow> int" where
  "ilog2 x =
     (if 1 \<le> x then int (bit_length (nat \<lfloor>x\<rfloor>)) - 1
      else - int (bit_length (nat (\<lceil>1 / x\<rceil> - 1))))"

definition pow2 :: "int \<Rightarrow> rat" where
  "pow2 q = (if 0 \<le> q then 2 ^ nat q else 1 / 2 ^ nat (- q))"

definition round_half_even :: "rat \<Rightarrow> int" where
  "round_half_even m =
     (let f = \<lfloor>m\<rfloor>; r = m - of_int f
      in if r < 1 / 2 then f else if 1 / 2 < r then f + 1 else if even f then f else f + 1)"

text \<open>Rounding a positive rational to binary64: the spacing of doubles around \<open>x\<close> is
  \<open>2\<^sup>q\<close> with \<open>q = max e (-1022) - 52\<close> (53 significant bits, subnormal below \<open>2\<^sup>-\<^sup>1\<^sup>0\<^sup>2\<^sup>2\<close>);
  a result of \<open>2\<^sup>1\<^sup>0\<^sup>2\<^sup>4\<close> or more overflows to infinity.\<close>

definition round_pos :: "rat \<Rightarrow> pyfloat" where
  "round_pos x =
     (let q = max (ilog2 x) (- 1022) - 52;
          r = of_int (round_half_even (x / pow2 q)) * pow2 q
      in if 2 ^ 1024 \<le> r then PInf else Fin r)"

fun fneg :: "pyfloat \<Rightarrow> pyfloat" where
  "fneg (Fin a) = Fin (- a)"
| "fneg PInf = NInf"
| "fneg NInf = PInf"
| "fneg NaN = NaN"

text \<open>The double nearest to a rational; it is also the value of a float literal of the
  source, \<^verbatim>\<open>5.08\<close> being \<open>round_double 5.08\<close>.\<close>

definition round_double :: "rat \<Rightarrow> pyfloat" where
  "round_double x =
     (if x = 0 then Fin 0 else if 0 < x then round_pos x else fneg (round_pos (- x)))"

text \<open>\<^verbatim>\<open>x + y\<close>, \<^verbatim>\<open>x - y\<close>, \<^verbatim>\<open>abs(x)\<close>, \<^verbatim>\<open>x < y\<close> and \<^verbatim>\<open>x <= y\<close> on floats.\<close>

fun fadd :: "pyfloat \<Rightarrow> pyfloat \<Rightarrow> pyfloat" where
  "fadd (Fin a) (Fin b) = round_double (a + b)"
| "fadd NaN _ = NaN"
| "fadd _ NaN = NaN"
| "fadd PInf NInf = NaN"
| "fadd NInf PInf = NaN"
| "fadd PInf _ = PInf"
| "fadd NInf _ = NInf"
| "fadd _ PInf = PInf"
| "fadd _ NInf = NInf"

fun fsub :: "pyfloat \<Rightarrow> pyfloat \<Rightarrow> pyfloat" where
  "fsub (Fin a) (Fin b) = round_double (a - b)"
| "fsub NaN _ = NaN"
| "fsub _ NaN = NaN"
| "fsub PInf PInf = NaN"
| "fsub NInf NInf = NaN"
| "fsub PInf _ = PInf"
| "fsub NInf _ = NInf"
| "fsub _ PInf = NInf"
| "fsub _ NInf = PInf"

fun fabs :: "pyfloat \<Rightarrow> pyfloat" where
  "fabs (Fin a) = Fin \<bar>a\<bar>"
| "fabs PInf = PInf"
| "fabs NInf = PInf"
| "fabs NaN = NaN"

fun flt :: "pyfloat \<Rightarrow> pyfloat \<Rightarrow> bool" where
  "flt NaN _ = False"
| "flt _ NaN = False"
| "flt (Fin a) (Fin b) = (a < b)"
| "flt PInf _ = False"
| "flt _ NInf = False"
| "flt NInf _ = True"
| "flt _ PInf = True"

fun fle :: "pyfloat \<Rightarrow> pyfloat \<Rightarrow> bool" where
  "fle NaN _ = False"
| "fle _ NaN = False"
| "fle (Fin a) (Fin b) = (a \<le> b)"
| "fle NInf _ = True"
| "fle _ PInf = True"
| "fle PInf _ = False"
| "fle _ NInf = False"

text \<open>\<^verbatim>\<open>x / y\<close>: Python raises \<^verbatim>\<open>ZeroDivisionError\<close> for a zero divisor, whatever the
  dividend; otherwise the quotient is the IEEE one.\<close>

fun fdiv :: "pyfloat \<Rightarrow> pyfloat \<Rightarrow> pyfloat" where
  "fdiv NaN _ = NaN"
| "fdiv _ NaN = NaN"
| "fdiv (Fin a) (Fin b) = round_double (a / b)"
| "fdiv (Fin a) _ = Fin 0"
| "fdiv PInf (Fin b) = (if 0 < b then PInf else NInf)"
| "fdiv NInf (Fin b) = (if 0 < b then NInf else PInf)"
| "fdiv _ _ = NaN"

definition truediv :: "pyfloat \<Rightarrow> pyfloat \<Rightarrow> error + pyfloat" where
  "truediv x y = (if y = Fin 0 then Inl ZeroDivisionError else Inr (fdiv x y))"

subsection \<open>Python values\<close>

record Position =
  pos :: pyfloat

text \<open>The values a \<^verbatim>\<open>Position\<close> can be compared against: another \<^verbatim>\<open>Position\<close> or a
  value of one of Python's built-in types.\<close>

datatype pyval =
    PositionV Position
  | FloatV pyfloat
  | IntV int
  | BoolV bool
  | StrV string
  | NoneV

fun is_Position :: "pyval \<Rightarrow> bool" where
  "is_Position (PositionV _) = True"
| "is_Position _ = False"

subsection \<open>Constants\<close>

text \<open>\<^verbatim>\<open>STEP_INCREMENT = 5.08 / 400\<close> is evaluated once, when the module is loaded: the
  literal \<^verbatim>\<open>5.08\<close> is rounded to a double, the integer 400 is converted exactly, and the
  quotient is rounded. The division does not raise (lemma \<open>STEP_INCREMENT_value\<close>).\<close>

definition STEP_INCREMENT :: pyfloat where
  "STEP_INCREMENT = projr (truediv (round_double 5.08) (Fin 400))"

definition CW :: int where "CW = 1"
definition CCW :: int where "CCW = 0"

definition STEP_X :: int where "STEP_X = 11"
definition DIR_X :: int where "DIR_X = 13"
definition STEP_Y :: int where "STEP_Y = 10"
definition DIR_Y :: int where "DIR_Y = 12"
definition STEP_Z :: int where "STEP_Z = 38"
definition DIR_Z :: int where "DIR_Z = 40"
definition STEP_A :: int where "STEP_A = 21"
definition DIR_A :: int where "DIR_A = 22"
definition STEP_B :: int where "STEP_B = 3"
definition DIR_B :: int where "DIR_B = 5"
definition SLEEP :: int where "SLEEP = 15"

text \<open>\<^verbatim>\<open>GPIO.HIGH\<close> and \<^verbatim>\<open>GPIO.LOW\<close> of the \<^verbatim>\<open>RPi.GPIO\<close> library.\<close>

definition GPIO_HIGH :: int where "GPIO_HIGH = 1"
definition GPIO_LOW :: int where "GPIO_LOW = 0"

subsection \<open>Observable effects\<close>

text \<open>A run of the controller is observed as the sequence of its calls
  \<^verbatim>\<open>GPIO.output(pin, level)\<close> and \<^verbatim>\<open>time.sleep(seconds)\<close>, oldest first.\<close>

datatype event = GPIO_output int int | time_sleep rat

subsection \<open>Position\<close>

definition increment :: "Position \<Rightarrow> Position" where
  "increment self = self\<lparr>pos := fadd (pos self) STEP_INCREMENT\<rparr>"

definition decrement :: "Position \<Rightarrow> Position" where
  "decrement self = self\<lparr>pos := fsub (pos self) STEP_INCREMENT\<rparr>"

text \<open>\<^verbatim>\<open>Position.__eq__\<close>: \<^verbatim>\<open>type(self) is type(other)\<close> holds exactly when
  \<^verbatim>\<open>other\<close> is a \<^verbatim>\<open>Position\<close>; then
  \<^verbatim>\<open>abs(self.pos - other.pos) <= STEP_INCREMENT / 2\<close> is computed in floats.\<close>

definition Position_eq :: "Position \<Rightarrow> pyval \<Rightarrow> error + bool" where
  "Position_eq self other =
     (case other of
        PositionV q \<Rightarrow>
          bind_err (truediv STEP_INCREMENT (Fin 2))
            (\<lambda>half. Inr (fle (fabs (fsub (pos self) (pos q))) half))
      | _ \<Rightarrow> Inl TypeError)"

text \<open>\<^verbatim>\<open>Position.__lt__\<close>.\<close>

definition Position_lt :: "Position \<Rightarrow> pyval \<Rightarrow> error + bool" where
  "Position_lt self other =
     (case other of
        PositionV q \<Rightarrow>
          bind_err (Position_eq self other)
            (\<lambda>same. if same then Inr False else Inr (flt (pos self) (pos q)))
      | _ \<Rightarrow> Inl TypeError)"

text \<open>\<^verbatim>\<open>!=\<close> is Python's default \<^verbatim>\<open>__ne__\<close>, the negation of \<^verbatim>\<open>__eq__\<close>; \<^verbatim>\<open>>\<close> is the
  \<^verbatim>\<open>__gt__\<close> that \<^verbatim>\<open>functools.total_ordering\<close> derives from \<^verbatim>\<open>__lt__\<close>:
  \<^verbatim>\<open>not (self < other) and self != other\<close>, the second operand evaluated only when the
  first is true.\<close>

definition Position_ne :: "Position \<Rightarrow> pyval \<Rightarrow> error + bool" where
  "Position_ne self other = bind_err (Position_eq self other) (\<lambda>same. Inr (\<not> same))"

definition Position_gt :: "Position \<Rightarrow> pyval \<Rightarrow> error + bool" where
  "Position_gt self other =
     bind_err (Position_lt self other)
       (\<lambda>op_result. if \<not> op_result then Position_ne self other else Inr False)"

subsection \<open>Axis\<close>

record Axis =
  step_pin :: int
  dir_pin :: int
  current_position :: Position
  target_position :: Position
  name :: string

text \<open>\<^verbatim>\<open>Axis.__init__\<close>; a fresh \<^verbatim>\<open>Position()\<close> has \<^verbatim>\<open>pos = 0.0\<close>.\<close>

definition Position_init :: Position where
  "Position_init = \<lparr>pos = Fin 0\<rparr>"

definition Axis_init :: "int \<Rightarrow> int \<Rightarrow> string \<Rightarrow> Axis" where
  "Axis_init sp dp nm =
     \<lparr>step_pin = sp, dir_pin = dp, current_position = Position_init,
      target_position = Position_init, name = nm\<rparr>"

text \<open>The properties \<^verbatim>\<open>current_position\<close> and \<^verbatim>\<open>target_position\<close>: the getter reads
  \<^verbatim>\<open>pos\<close> of the axis's own \<^verbatim>\<open>Position\<close> object, the setter writes it.\<close>

definition get_current_position :: "Axis \<Rightarrow> pyfloat" where
  "get_current_position self = pos (current_position self)"

definition set_current_position :: "Axis \<Rightarrow> pyfloat \<Rightarrow> Axis" where
  "set_current_position self val =
     self\<lparr>current_position := (current_position self)\<lparr>pos := val\<rparr>\<rparr>"

definition get_target_position :: "Axis \<Rightarrow> pyfloat" where
  "get_target_position self = pos (target_position self)"

definition set_target_position :: "Axis \<Rightarrow> pyfloat \<Rightarrow> Axis" where
  "set_target_position self val =
     self\<lparr>target_position := (target_position self)\<lparr>pos := val\<rparr>\<rparr>"

definition Axis_is_in_position :: "Axis \<Rightarrow> error + bool" where
  "Axis_is_in_position self =
     Position_eq (current_position self) (PositionV (target_position self))"

definition step_decrease :: "Axis \<Rightarrow> event list" where
  "step_decrease self = [GPIO_output (dir_pin self) CW, GPIO_output (step_pin self) GPIO_HIGH]"

definition step_increase :: "Axis \<Rightarrow> event list" where
  "step_increase self = [GPIO_output (dir_pin self) CCW, GPIO_output (step_pin self) GPIO_HIGH]"

definition pulse_low :: "Axis \<Rightarrow> event list" where
  "pulse_low self = [GPIO_output (step_pin self) GPIO_LOW]"

text \<open>\<^verbatim>\<open>Axis.move\<close> returns the axis after the call and the signal writes of the call.\<close>

definition move :: "Axis \<Rightarrow> error + (Axis \<times> event list)" where
  "move self =
     bind_err (Position_lt (current_position self) (PositionV (target_position self)))
       (\<lambda>less.
          if less then
            Inr (self\<lparr>current_position := increment (current_position self)\<rparr>,
                 step_increase self)
          else
            bind_err (Position_gt (current_position self) (PositionV (target_position self)))
              (\<lambda>greater.
                 if greater then
                   Inr (self\<lparr>current_position := decrement (current_position self)\<rparr>,
                        step_decrease self)
                 else Inr (self, [])))"

subsection \<open>The command source\<close>

text \<open>The module \<^verbatim>\<open>data\<close> is written by another part of the server; the controller
  uses its dictionary \<^verbatim>\<open>targets\<close> (axis name to target value) and its flag
  \<^verbatim>\<open>zero_cmd\<close>. A subscript \<^verbatim>\<open>data.targets[k]\<close> with a missing key raises
  \<^verbatim>\<open>KeyError\<close>.\<close>

record data_module =
  targets :: "string \<rightharpoonup> pyfloat"
  zero_cmd :: bool

definition targets_getitem :: "data_module \<Rightarrow> string \<Rightarrow> error + pyfloat" where
  "targets_getitem d k = (case targets d k of None \<Rightarrow> Inl (KeyError k) | Some v \<Rightarrow> Inr v)"

subsection \<open>Module-level functions\<close>

definition wake_up :: "event list" where
  "wake_up = [GPIO_output SLEEP GPIO_HIGH]"

definition sleep :: "event list" where
  "sleep = [GPIO_output SLEEP GPIO_LOW]"

text \<open>\<^verbatim>\<open>is_in_position(*axes)\<close>: \<^verbatim>\<open>all\<close> over a generator stops at the first axis that
  is out of position.\<close>

fun is_in_position :: "Axis list \<Rightarrow> error + bool" where
  "is_in_position [] = Inr True"
| "is_in_position (axis # axes) =
     bind_err (Axis_is_in_position axis)
       (\<lambda>b. if b then is_in_position axes else Inr False)"

text \<open>\<^verbatim>\<open>zero_if_cmd(*axes)\<close> returns the command source and the axes as the call
  leaves them.\<close>

definition zero_if_cmd :: "data_module \<Rightarrow> Axis list \<Rightarrow> data_module \<times> Axis list" where
  "zero_if_cmd d axes =
     (if zero_cmd d then
        (d\<lparr>zero_cmd := False\<rparr>,
         map (\<lambda>axis. set_target_position (set_current_position axis (Fin 0)) (Fin 0)) axes)
      else (d, axes))"

subsection \<open>The control loop\<close>

text \<open>The local variables of \<^verbatim>\<open>run\<close> together with the command source.\<close>

record controller =
  x_axis :: Axis
  y_axis :: Axis
  z_axis :: Axis
  a_axis :: Axis
  b_axis :: Axis
  data :: data_module

definition axes_of :: "controller \<Rightarrow> Axis list" where
  "axes_of s = [x_axis s, y_axis s, z_axis s, a_axis s, b_axis s]"

text \<open>The state in which \<^verbatim>\<open>run\<close> enters its loop (lines 40 to 44).\<close>

definition run_init :: "data_module \<Rightarrow> controller" where
  "run_init d =
     \<lparr>x_axis = Axis_init STEP_X DIR_X ''x'',
      y_axis = Axis_init STEP_Y DIR_Y ''y'',
      z_axis = Axis_init STEP_Z DIR_Z ''z'',
      a_axis = Axis_init STEP_A DIR_A ''a'',
      b_axis = Axis_init STEP_B DIR_B ''b'',
      data = d\<rparr>"

text \<open>Command ingestion, lines 48 to 54 of the loop body: the zero check, then the five
  target assignments.\<close>

definition ingest_commands :: "controller \<Rightarrow> error + controller" where
  "ingest_commands s =
     (case zero_if_cmd (data s) (axes_of s) of
        (d, axes) \<Rightarrow>
          bind_err (targets_getitem d ''x'') (\<lambda>tx.
          bind_err (targets_getitem d ''y'') (\<lambda>ty.
          bind_err (targets_getitem d ''z'') (\<lambda>tz.
          bind_err (targets_getitem d ''a'') (\<lambda>ta.
          bind_err (targets_getitem d ''b'') (\<lambda>tb.
            Inr \<lparr>x_axis = set_target_position (axes ! 0) tx,
                 y_axis = set_target_position (axes ! 1) ty,
                 z_axis = set_target_position (axes ! 2) tz,
                 a_axis = set_target_position (axes ! 3) ta,
                 b_axis = set_target_position (axes ! 4) tb,
                 data = d\<rparr>))))))"

text \<open>The rest of the loop body, lines 58 to 79, from the state after ingestion.\<close>

definition move_or_sleep :: "controller \<Rightarrow> error + (controller \<times> event list)" where
  "move_or_sleep s =
     bind_err (is_in_position (axes_of s)) (\<lambda>in_pos.
       if \<not> in_pos then
         bind_err (move (x_axis s)) (\<lambda>(x, ex).
         bind_err (move (y_axis s)) (\<lambda>(y, ey).
         bind_err (move (z_axis s)) (\<lambda>(z, ez).
         bind_err (move (a_axis s)) (\<lambda>(a, ea).
         bind_err (move (b_axis s)) (\<lambda>(b, eb).
           Inr (s\<lparr>x_axis := x, y_axis := y, z_axis := z, a_axis := a, b_axis := b\<rparr>,
                wake_up @ ex @ ey @ ez @ ea @ eb
                @ [time_sleep 0.00075]
                @ pulse_low x @ pulse_low y @ pulse_low z @ pulse_low a @ pulse_low b
                @ [time_sleep 0.00075]))))))
       else Inr (s, sleep))"

text \<open>One iteration of \<^verbatim>\<open>while True\<close>.\<close>

definition run_iteration :: "controller \<Rightarrow> error + (controller \<times> event list)" where
  "run_iteration s = bind_err (ingest_commands s) move_or_sleep"

text \<open>The loop never ends by itself; between two iterations the rest of the server may
  write the command source. \<open>run_loop\<close> runs one iteration for each element of a list of
  such writes, applying the write before the iteration.\<close>

fun run_loop :: "(data_module \<Rightarrow> data_module) list \<Rightarrow> controller
    \<Rightarrow> error + (controller \<times> event list)" where
  "run_loop [] s = Inr (s, [])"
| "run_loop (w # ws) s =
     bind_err (run_iteration (s\<lparr>data := w (data s)\<rparr>)) (\<lambda>(s', tr).
     bind_err (run_loop ws s') (\<lambda>(s'', tr'). Inr (s'', tr @ tr')))"

text \<open>Calling \<^verbatim>\<open>move\<close> \<open>n\<close> times in a row on one axis.\<close>

fun move_times :: "nat \<Rightarrow> Axis \<Rightarrow> error + (Axis \<times> event list)" where
  "move_times 0 self = Inr (self, [])"
| "move_times (Suc n) self =
     bind_err (move self) (\<lambda>(self', tr).
     bind_err (move_times n self') (\<lambda>(self'', tr'). Inr (self'', tr @ tr')))"

text \<open>The pins of the five axes are those \<^verbatim>\<open>run\<close> passes to the constructors.\<close>

definition wired :: "controller \<Rightarrow> bool" where
  "wired s \<longleftrightarrow>
     map step_pin (axes_of s) = [STEP_X, STEP_Y, STEP_Z, STEP_A, STEP_B] \<and>
     map dir_pin (axes_of s) = [DIR_X, DIR_Y, DIR_Z, DIR_A, DIR_B]"

text \<open>What the controller reports: for each axis, in the order x, y, z, a, b, the values
  of the properties \<^verbatim>\<open>current_position\<close> and \<^verbatim>\<open>target_position\<close>, and the value of
  \<^verbatim>\<open>data.zero_cmd\<close>.\<close>

definition report :: "controller \<Rightarrow> (pyfloat \<times> pyfloat) list \<times> bool" where
  "report s =
     (map (\<lambda>axis. (get_current_position axis, get_target_position axis)) (axes_of s),
      zero_cmd (data s))"

text \<open>A state of the loop: every axis stands at its commanded target, none of them at
  zero, and the zero command has just been sent.\<close>

definition zero_example :: controller where
  "zero_example =
     \<lparr>x_axis = \<lparr>step_pin = STEP_X, dir_pin = DIR_X, current_position = \<lparr>pos = Fin 1\<rparr>,
                target_position = \<lparr>pos = Fin 1\<rparr>, name = ''x''\<rparr>,
      y_axis = \<lparr>step_pin = STEP_Y, dir_pin = DIR_Y, current_position = \<lparr>pos = Fin 2\<rparr>,
                target_position = \<lparr>pos = Fin 2\<rparr>, name = ''y''\<rparr>,
      z_axis = \<lparr>step_pin = STEP_Z, dir_pin = DIR_Z, current_position = \<lparr>pos = Fin 3\<rparr>,
                target_position = \<lparr>pos = Fin 3\<rparr>, name = ''z''\<rparr>,
      a_axis = \<lparr>step_pin = STEP_A, dir_pin = DIR_A, current_position = \<lparr>pos = Fin 4\<rparr>,
                target_position = \<lparr>pos = Fin 4\<rparr>, name = ''a''\<rparr>,
      b_axis = \<lparr>step_pin = STEP_B, dir_pin = DIR_B, current_position = \<lparr>pos = Fin 5\<rparr>,
                target_position = \<lparr>pos = Fin 5\<rparr>, name = ''b''\<rparr>,
      data = \<lparr>targets = [''x'' \<mapsto> Fin 1, ''y'' \<mapsto> Fin 2, ''z'' \<mapsto> Fin 3, ''a'' \<mapsto> Fin 4,
                         ''b'' \<mapsto> Fin 5],
              zero_cmd = True\<rparr>\<rparr>"

text \<open>Two states at the head of the loop, both right after \<^verbatim>\<open>run\<close> has built the axes: in
  the first the command source asks the x axis to go to 1 and the others to stay at 0, in the
  second every commanded target is 0.\<close>

definition moving_example :: controller where
  "moving_example =
     run_init \<lparr>targets = [''x'' \<mapsto> Fin 1, ''y'' \<mapsto> Fin 0, ''z'' \<mapsto> Fin 0, ''a'' \<mapsto> Fin 0,
                          ''b'' \<mapsto> Fin 0],
               zero_cmd = False\<rparr>"

definition idle_example :: controller where
  "idle_example =
     run_init \<lparr>targets = [''x'' \<mapsto> Fin 0, ''y'' \<mapsto> Fin 0, ''z'' \<mapsto> Fin 0, ''a'' \<mapsto> Fin 0,
                          ''b'' \<mapsto> Fin 0],
               zero_cmd = False\<rparr>"

text \<open>The test of \<^verbatim>\<open>__eq__\<close> with its constant \<^verbatim>\<open>STEP_INCREMENT / 2\<close> evaluated
  (lemma \<open>Position_eq_Position\<close>).\<close>

definition within_deadzone :: "pyfloat \<Rightarrow> pyfloat \<Rightarrow> bool" where
  "within_deadzone x y =
     fle (fabs (fsub x y)) (Fin (3660525777126739 / 576460752303423488))"

text \<open>An axis as \<^verbatim>\<open>run\<close> builds it, at current position \<open>c\<close>, with the target
  \<^verbatim>\<open>0.05715\<close> (four and a half steps) assigned.\<close>

definition hunting_axis :: "pyfloat \<Rightarrow> Axis" where
  "hunting_axis c =
     \<lparr>step_pin = STEP_X, dir_pin = DIR_X, current_position = \<lparr>pos = c\<rparr>,
      target_position = \<lparr>pos = round_double 0.05715\<rparr>, name = ''x''\<rparr>"


text \<open>The current positions that axis passes through: 0, then four steps up to
  \<^verbatim>\<open>0.0508\<close>, then \<^verbatim>\<open>0.0635\<close>.\<close>

definition hunting_positions :: "pyfloat list" where
  "hunting_positions =
     [Fin 0,
      Fin (3660525777126739 / 288230376151711744),
      Fin (3660525777126739 / 144115188075855872),
      Fin (1372697166422527 / 36028797018963968),
      Fin (3660525777126739 / 72057594037927936),
      Fin (571957152676053 / 9007199254740992)]"

section \<open>Evaluating float operations\<close>

lemma bit_length_0: "bit_length 0 = 0"
  by (simp add: bit_length.simps)

lemma bit_length_Suc_0: "bit_length (Suc 0) = 1"
  by (simp add: bit_length.simps)

lemma bit_length_One: "bit_length (numeral Num.One) = 1"
  by (simp add: bit_length.simps)

lemma bit_length_Bit0: "bit_length (numeral (Num.Bit0 n)) = Suc (bit_length (numeral n))"
  by (subst bit_length.simps) simp

lemma bit_length_Bit1: "bit_length (numeral (Num.Bit1 n)) = Suc (bit_length (numeral n))"
  by (subst bit_length.simps) simp

lemma floor_rat_numeral: "\<lfloor>numeral a / numeral b :: rat\<rfloor> = numeral a div numeral b"
  using floor_divide_of_int_eq [of "numeral a" "numeral b", where ?'a = rat] by simp

lemma floor_rat_one: "\<lfloor>1 / numeral b :: rat\<rfloor> = 1 div numeral b"
  using floor_divide_of_int_eq [of 1 "numeral b", where ?'a = rat] by simp

lemma ceiling_rat_numeral: "\<lceil>numeral a / numeral b :: rat\<rceil> = - (- numeral a div numeral b)"
  using ceiling_divide_eq_div [of "numeral a" "numeral b", where ?'a = rat] by simp

lemma ceiling_rat_one: "\<lceil>1 / numeral b :: rat\<rceil> = - (- 1 div numeral b)"
  using ceiling_divide_eq_div [of 1 "numeral b", where ?'a = rat] by simp

lemmas float_eval =
  round_double_def round_pos_def round_half_even_def pow2_def ilog2_def Let_def
  bit_length_0 bit_length_Suc_0 bit_length_One bit_length_Bit0 bit_length_Bit1
  floor_rat_numeral floor_rat_one ceiling_rat_numeral ceiling_rat_one

lemma literal_5_08: "round_double 5.08 = Fin (2859785763380265 / 562949953421312)"
  by (simp add: float_eval)

lemma STEP_INCREMENT_value: "STEP_INCREMENT = Fin (3660525777126739 / 288230376151711744)"
  by (simp add: STEP_INCREMENT_def truediv_def literal_5_08) (simp add: float_eval)

lemma half_step_value:
  "truediv STEP_INCREMENT (Fin 2) = Inr (Fin (3660525777126739 / 576460752303423488))"
  by (simp add: STEP_INCREMENT_value truediv_def) (simp add: float_eval)

section \<open>Properties of float arithmetic\<close>

lemma fneg_fneg: "fneg (fneg x) = x"
  by (cases x) simp_all

lemma fabs_fneg: "fabs (fneg x) = fabs x"
  by (cases x) simp_all

lemma round_double_0: "round_double 0 = Fin 0"
  by (simp add: round_double_def)

lemma round_double_minus: "round_double (- x) = fneg (round_double x)"
  by (simp add: round_double_def fneg_fneg)

lemma round_pos_not_NaN: "round_pos x \<noteq> NaN"
  by (simp add: round_pos_def Let_def)

lemma fabs_fsub_commute: "fabs (fsub x y) = fabs (fsub y x)"
proof (cases x)
  case (Fin a)
  show ?thesis
  proof (cases y)
    case (Fin b)
    have "round_double (a - b) = fneg (round_double (b - a))"
      using round_double_minus [of "b - a"] by simp
    with \<open>x = Fin a\<close> Fin show ?thesis by (simp add: fabs_fneg)
  qed (simp_all add: \<open>x = Fin a\<close>)
qed (cases y; simp)+

lemma within_deadzone_commute: "within_deadzone x y = within_deadzone y x"
  by (simp add: within_deadzone_def fabs_fsub_commute)

lemma within_deadzone_refl: "within_deadzone (Fin a) (Fin a)"
  by (simp add: within_deadzone_def round_double_0)

lemma flt_asym: "flt x y \<Longrightarrow> \<not> flt y x"
  by (cases x; cases y) simp_all

lemma flt_total:
  assumes "x \<noteq> NaN" and "y \<noteq> NaN" and "x \<noteq> y"
  shows "flt x y \<or> flt y x"
  using assms by (cases x; cases y) auto

section \<open>Properties of Position\<close>

lemma Position_eq_Position:
  "Position_eq p (PositionV q) = Inr (within_deadzone (pos p) (pos q))"
  by (simp add: Position_eq_def half_step_value bind_err_def within_deadzone_def)

lemma Position_lt_Position:
  "Position_lt p (PositionV q) =
     Inr (\<not> within_deadzone (pos p) (pos q) \<and> flt (pos p) (pos q))"
  by (simp add: Position_lt_def Position_eq_Position bind_err_def)

lemma Position_gt_Position:
  "Position_gt p (PositionV q) =
     Inr (\<not> within_deadzone (pos p) (pos q) \<and> \<not> flt (pos p) (pos q))"
  by (auto simp add: Position_gt_def Position_ne_def Position_lt_Position
      Position_eq_Position bind_err_def)

text \<open>
  The claim C3 as it is written fails: the program compares the rounded double difference,
  not the exact one. For \<open>p = 0.00635\<close> and \<open>q = -3 \<sqdot> 2\<^sup>-\<^sup>6\<^sup>3\<close> (both doubles) the difference
  \<open>p - q\<close> rounds to \<open>p\<close>, which is the double \<open>STEP_INCREMENT / 2\<close>, so \<^verbatim>\<open>__eq__\<close> returns
  true, although the exact distance exceeds \<open>STEP_INCREMENT / 2\<close>, both for the double
  \<open>STEP_INCREMENT\<close> and for the exact quotient \<open>5.08 / 400\<close>.
\<close>

theorem Position_eq_deadzone_counterexample:
  "round_double 0.00635 = Fin (3660525777126739 / 576460752303423488)
   \<and> round_double (- (3 / 2 ^ 63)) = Fin (- (3 / 2 ^ 63))
   \<and> Position_eq \<lparr>pos = Fin (3660525777126739 / 576460752303423488)\<rparr>
        (PositionV \<lparr>pos = Fin (- (3 / 2 ^ 63))\<rparr>) = Inr True
   \<and> \<not> \<bar>3660525777126739 / 576460752303423488 - (- (3 / 2 ^ 63))\<bar>
        \<le> (3660525777126739 / 288230376151711744) / (2 :: rat)
   \<and> \<not> \<bar>3660525777126739 / 576460752303423488 - (- (3 / 2 ^ 63))\<bar>
        \<le> (5.08 / 400) / (2 :: rat)"
proof -
  have "round_double 0.00635 = Fin (3660525777126739 / 576460752303423488)"
    by (simp add: float_eval)
  moreover have "round_double (- (3 / 2 ^ 63)) = Fin (- (3 / 2 ^ 63))"
    by (simp add: float_eval)
  moreover have "Position_eq \<lparr>pos = Fin (3660525777126739 / 576460752303423488)\<rparr>
        (PositionV \<lparr>pos = Fin (- (3 / 2 ^ 63))\<rparr>) = Inr True"
    by (simp add: Position_eq_Position within_deadzone_def) (simp add: float_eval)
  moreover have "\<not> \<bar>3660525777126739 / 576460752303423488 - (- (3 / 2 ^ 63))\<bar>
        \<le> (3660525777126739 / 288230376151711744) / (2 :: rat)"
    by simp
  moreover have "\<not> \<bar>3660525777126739 / 576460752303423488 - (- (3 / 2 ^ 63))\<bar>
        \<le> (5.08 / 400) / (2 :: rat)"
    by simp
  ultimately show ?thesis by (intro conjI)
qed

text \<open>
  Claim C3, amended. For all Positions \<open>p\<close> and \<open>q\<close>, the equality test of \<open>p\<close> against \<open>q\<close>
  returns (it does not raise), and it returns true exactly when the absolute value of the
  double difference \<open>p.value - q.value\<close> (the exact difference rounded to the nearest double;
  an infinity or NaN by the IEEE rules) is at most the double \<open>STEP_INCREMENT / 2\<close>, which is
  \<open>3660525777126739 / 2\<^sup>5\<^sup>9\<close>, in the ordering of floats, where \<open>STEP_INCREMENT\<close> is the double
  \<open>3660525777126739 / 2\<^sup>5\<^sup>8\<close> that \<^verbatim>\<open>5.08 / 400\<close> evaluates to. For finite values whose
  difference is itself a double, this is \<open>\<bar>p.value - q.value\<bar> \<le> STEP_INCREMENT / 2\<close>.
\<close>

theorem Position_eq_deadzone:
  "Position_eq p (PositionV q) =
     Inr (fle (fabs (fsub (pos p) (pos q))) (Fin (3660525777126739 / 576460752303423488)))
   \<and> STEP_INCREMENT = Fin (3660525777126739 / 288230376151711744)
   \<and> truediv STEP_INCREMENT (Fin 2) = Inr (Fin (3660525777126739 / 576460752303423488))
   \<and> (\<forall>a b. pos p = Fin a \<longrightarrow> pos q = Fin b \<longrightarrow> round_double (a - b) = Fin (a - b) \<longrightarrow>
        (Position_eq p (PositionV q) = Inr True
           \<longleftrightarrow> \<bar>a - b\<bar> \<le> 3660525777126739 / 576460752303423488))"
proof (intro conjI allI impI)
  show "Position_eq p (PositionV q) =
     Inr (fle (fabs (fsub (pos p) (pos q))) (Fin (3660525777126739 / 576460752303423488)))"
    by (simp add: Position_eq_Position within_deadzone_def)
  show "STEP_INCREMENT = Fin (3660525777126739 / 288230376151711744)"
    by (rule STEP_INCREMENT_value)
  show "truediv STEP_INCREMENT (Fin 2) = Inr (Fin (3660525777126739 / 576460752303423488))"
    by (rule half_step_value)
  show "(Position_eq p (PositionV q) = Inr True)
      = (\<bar>a - b\<bar> \<le> 3660525777126739 / 576460752303423488)"
    if "pos p = Fin a" and "pos q = Fin b" and "round_double (a - b) = Fin (a - b)" for a b
    using that by (simp add: Position_eq_Position within_deadzone_def)
qed

theorem Position_eq_deadzone_witness:
  "pos \<lparr>pos = Fin 1\<rparr> = Fin 1 \<and> pos \<lparr>pos = Fin (3 / 4)\<rparr> = Fin (3 / 4)
   \<and> round_double (1 - 3 / 4) = Fin (1 - 3 / 4)
   \<and> Position_eq \<lparr>pos = Fin 1\<rparr> (PositionV \<lparr>pos = Fin (3 / 4)\<rparr>) = Inr False
   \<and> \<not> \<bar>1 - 3 / 4\<bar> \<le> (3660525777126739 / 576460752303423488 :: rat)"
proof -
  have r: "round_double (1 - 3 / 4) = Fin (1 - 3 / 4)"
    by (simp add: float_eval)
  from Position_eq_deadzone [of "\<lparr>pos = Fin 1\<rparr>" "\<lparr>pos = Fin (3 / 4)\<rparr>"] r
  have "Position_eq \<lparr>pos = Fin 1\<rparr> (PositionV \<lparr>pos = Fin (3 / 4)\<rparr>) = Inr False"
    by simp
  with r show ?thesis by simp
qed

text \<open>
  The claim C4 as it is written fails for Positions that hold NaN, and for two Positions
  that hold the same infinity: none of the three tests is true there.
\<close>

theorem Position_trichotomy_counterexample:
  "Position_eq \<lparr>pos = Fin 0\<rparr> (PositionV \<lparr>pos = NaN\<rparr>) = Inr False
   \<and> Position_lt \<lparr>pos = Fin 0\<rparr> (PositionV \<lparr>pos = NaN\<rparr>) = Inr False
   \<and> Position_lt \<lparr>pos = NaN\<rparr> (PositionV \<lparr>pos = Fin 0\<rparr>) = Inr False
   \<and> Position_eq \<lparr>pos = PInf\<rparr> (PositionV \<lparr>pos = PInf\<rparr>) = Inr False
   \<and> Position_lt \<lparr>pos = PInf\<rparr> (PositionV \<lparr>pos = PInf\<rparr>) = Inr False"
  by (simp add: Position_eq_Position Position_lt_Position within_deadzone_def)

text \<open>
  Claim C4, amended (trichotomy). For all Positions \<open>p\<close> and \<open>q\<close>, no two of the three tests
  (\<open>p\<close> equals \<open>q\<close>, \<open>p\<close> is less than \<open>q\<close>, \<open>q\<close> is less than \<open>p\<close>) answer true, and when \<open>p\<close> equals
  \<open>q\<close> the less-than test returns false in both directions. When neither value is NaN and
  the two are not the same infinity (so for all finite values), at least one of the three
  answers true: exactly one holds.
\<close>

theorem Position_trichotomy:
  "\<not> (Position_eq p (PositionV q) = Inr True \<and> Position_lt p (PositionV q) = Inr True)
   \<and> \<not> (Position_eq p (PositionV q) = Inr True \<and> Position_lt q (PositionV p) = Inr True)
   \<and> \<not> (Position_lt p (PositionV q) = Inr True \<and> Position_lt q (PositionV p) = Inr True)
   \<and> (Position_eq p (PositionV q) = Inr True \<longrightarrow>
        Position_lt p (PositionV q) = Inr False \<and> Position_lt q (PositionV p) = Inr False)
   \<and> (pos p \<noteq> NaN \<and> pos q \<noteq> NaN
        \<and> \<not> (pos p = PInf \<and> pos q = PInf) \<and> \<not> (pos p = NInf \<and> pos q = NInf) \<longrightarrow>
        Position_eq p (PositionV q) = Inr True
        \<or> Position_lt p (PositionV q) = Inr True
        \<or> Position_lt q (PositionV p) = Inr True)"
proof -
  have sym: "within_deadzone (pos q) (pos p) = within_deadzone (pos p) (pos q)"
    by (rule within_deadzone_commute)
  have one: "within_deadzone (pos p) (pos q) \<or> flt (pos p) (pos q) \<or> flt (pos q) (pos p)"
    if "pos p \<noteq> NaN" and "pos q \<noteq> NaN"
      and "\<not> (pos p = PInf \<and> pos q = PInf)" and "\<not> (pos p = NInf \<and> pos q = NInf)"
  proof (cases "pos p = pos q")
    case True
    with that show ?thesis
      by (cases "pos p"; cases "pos q"; simp add: within_deadzone_refl)
  next
    case False
    with that flt_total [of "pos p" "pos q"] show ?thesis by blast
  qed
  show ?thesis
    using one flt_asym [of "pos p" "pos q"]
    by (auto simp add: Position_eq_Position Position_lt_Position sym)
qed

theorem Position_trichotomy_witness:
  "Position_eq \<lparr>pos = Fin 1\<rparr> (PositionV \<lparr>pos = Fin 1\<rparr>) = Inr True
   \<and> Position_lt \<lparr>pos = Fin 1\<rparr> (PositionV \<lparr>pos = Fin 1\<rparr>) = Inr False
   \<and> pos \<lparr>pos = Fin 0\<rparr> \<noteq> NaN \<and> pos \<lparr>pos = Fin 1\<rparr> \<noteq> NaN
   \<and> Position_lt \<lparr>pos = Fin 0\<rparr> (PositionV \<lparr>pos = Fin 1\<rparr>) = Inr True
   \<and> Position_eq \<lparr>pos = Fin 0\<rparr> (PositionV \<lparr>pos = Fin 1\<rparr>) \<noteq> Inr True
   \<and> Position_lt \<lparr>pos = Fin 1\<rparr> (PositionV \<lparr>pos = Fin 0\<rparr>) \<noteq> Inr True"
proof -
  have e: "Position_eq \<lparr>pos = Fin 1\<rparr> (PositionV \<lparr>pos = Fin 1\<rparr>) = Inr True"
    by (simp add: Position_eq_Position within_deadzone_def round_double_0)
  have n: "Position_eq \<lparr>pos = Fin 0\<rparr> (PositionV \<lparr>pos = Fin 1\<rparr>) \<noteq> Inr True"
    by (simp add: Position_eq_Position within_deadzone_def) (simp add: float_eval)
  have g: "Position_lt \<lparr>pos = Fin 1\<rparr> (PositionV \<lparr>pos = Fin 0\<rparr>) \<noteq> Inr True"
    by (simp add: Position_lt_Position)
  from Position_trichotomy [of "\<lparr>pos = Fin 1\<rparr>" "\<lparr>pos = Fin 1\<rparr>"] e
  have l1: "Position_lt \<lparr>pos = Fin 1\<rparr> (PositionV \<lparr>pos = Fin 1\<rparr>) = Inr False"
    by blast
  from Position_trichotomy [of "\<lparr>pos = Fin 0\<rparr>" "\<lparr>pos = Fin 1\<rparr>"] n g
  have l2: "Position_lt \<lparr>pos = Fin 0\<rparr> (PositionV \<lparr>pos = Fin 1\<rparr>) = Inr True"
    by simp
  from e l1 l2 n g show ?thesis by simp
qed

text \<open>
  Claim C8. For every Position \<open>p\<close> and every value \<open>v\<close> that is not a Position, the equality
  test and the less-than test of \<open>p\<close> against \<open>v\<close> both raise \<^verbatim>\<open>TypeError\<close>; neither returns
  a boolean.
\<close>

theorem Position_compare_non_Position:
  "\<not> is_Position v \<Longrightarrow>
     Position_eq p v = Inl TypeError \<and> Position_lt p v = Inl TypeError"
  by (cases v) (simp_all add: Position_eq_def Position_lt_def)

theorem Position_compare_non_Position_witness:
  "\<not> is_Position (FloatV (Fin 0))
   \<and> Position_eq \<lparr>pos = Fin 0\<rparr> (FloatV (Fin 0)) = Inl TypeError
   \<and> Position_lt \<lparr>pos = Fin 0\<rparr> (FloatV (Fin 0)) = Inl TypeError"
  using Position_compare_non_Position [of "FloatV (Fin 0)" "\<lparr>pos = Fin 0\<rparr>"]
  by simp

text \<open>
  Claim C10. The deadzone equality is not transitive: there are Positions \<open>p\<close>, \<open>q\<close>, \<open>r\<close>
  where \<open>p\<close> equals \<open>q\<close> and \<open>q\<close> equals \<open>r\<close> but \<open>p\<close> does not equal \<open>r\<close>; the values \<open>0\<close>,
  \<open>STEP_INCREMENT / 2\<close> and \<open>STEP_INCREMENT\<close> are such a triple.
\<close>

theorem Position_eq_not_transitive:
  "(\<exists>p q r. Position_eq p (PositionV q) = Inr True \<and> Position_eq q (PositionV r) = Inr True
      \<and> Position_eq p (PositionV r) = Inr False)
   \<and> truediv STEP_INCREMENT (Fin 2) = Inr (Fin (3660525777126739 / 576460752303423488))
   \<and> Position_eq \<lparr>pos = Fin 0\<rparr>
        (PositionV \<lparr>pos = Fin (3660525777126739 / 576460752303423488)\<rparr>) = Inr True
   \<and> Position_eq \<lparr>pos = Fin (3660525777126739 / 576460752303423488)\<rparr>
        (PositionV \<lparr>pos = STEP_INCREMENT\<rparr>) = Inr True
   \<and> Position_eq \<lparr>pos = Fin 0\<rparr> (PositionV \<lparr>pos = STEP_INCREMENT\<rparr>) = Inr False"
proof -
  have t1: "Position_eq \<lparr>pos = Fin 0\<rparr>
        (PositionV \<lparr>pos = Fin (3660525777126739 / 576460752303423488)\<rparr>) = Inr True"
    by (simp add: Position_eq_Position within_deadzone_def) (simp add: float_eval)
  have t2: "Position_eq \<lparr>pos = Fin (3660525777126739 / 576460752303423488)\<rparr>
        (PositionV \<lparr>pos = STEP_INCREMENT\<rparr>) = Inr True"
    by (simp add: Position_eq_Position within_deadzone_def STEP_INCREMENT_value)
      (simp add: float_eval)
  have t3: "Position_eq \<lparr>pos = Fin 0\<rparr> (PositionV \<lparr>pos = STEP_INCREMENT\<rparr>) = Inr False"
    by (simp add: Position_eq_Position within_deadzone_def STEP_INCREMENT_value)
      (simp add: float_eval)
  from t1 t2 t3 have "\<exists>p q r. Position_eq p (PositionV q) = Inr True
      \<and> Position_eq q (PositionV r) = Inr True \<and> Position_eq p (PositionV r) = Inr False"
    by blast
  with t1 t2 t3 half_step_value show ?thesis by (intro conjI)
qed

section \<open>Properties of Axis\<close>

lemma move_result:
  "move a =
     Inr (if within_deadzone (pos (current_position a)) (pos (target_position a))
          then (a, [])
          else if flt (pos (current_position a)) (pos (target_position a))
          then (a\<lparr>current_position := increment (current_position a)\<rparr>, step_increase a)
          else (a\<lparr>current_position := decrement (current_position a)\<rparr>, step_decrease a))"
  by (simp add: move_def Position_lt_Position Position_gt_Position bind_err_def)

lemma Axis_is_in_position_result:
  "Axis_is_in_position a =
     Inr (within_deadzone (pos (current_position a)) (pos (target_position a)))"
  by (simp add: Axis_is_in_position_def Position_eq_Position)

lemma Position_gt_is_lt_swapped:
  assumes "pos p \<noteq> NaN" and "pos q \<noteq> NaN"
    and "\<not> (pos p = PInf \<and> pos q = PInf)" and "\<not> (pos p = NInf \<and> pos q = NInf)"
  shows "Position_gt p (PositionV q) = Position_lt q (PositionV p)"
proof (cases "within_deadzone (pos p) (pos q)")
  case True
  then show ?thesis
    by (simp add: Position_gt_Position Position_lt_Position
        within_deadzone_commute [of "pos q" "pos p"])
next
  case False
  with assms have "pos p \<noteq> pos q"
    by (cases "pos p"; cases "pos q"; auto simp add: within_deadzone_refl)
  with assms flt_total [of "pos p" "pos q"] flt_asym [of "pos p" "pos q"]
    flt_asym [of "pos q" "pos p"]
  have "(\<not> flt (pos p) (pos q)) = flt (pos q) (pos p)"
    by blast
  with False show ?thesis
    by (simp add: Position_gt_Position Position_lt_Position
        within_deadzone_commute [of "pos q" "pos p"])
qed

lemma move_less:
  assumes "Position_lt (current_position a) (PositionV (target_position a)) = Inr True"
  shows "move a = Inr (a\<lparr>current_position := increment (current_position a)\<rparr>,
                       step_increase a)"
  using assms by (simp add: move_def bind_err_def)

lemma move_greater:
  assumes "Position_gt (current_position a) (PositionV (target_position a)) = Inr True"
  shows "move a = Inr (a\<lparr>current_position := decrement (current_position a)\<rparr>,
                       step_decrease a)"
  using assms by (simp add: move_result Position_gt_Position)

lemma move_equal:
  assumes "Position_eq (current_position a) (PositionV (target_position a)) = Inr True"
  shows "move a = Inr (a, [])"
  using assms by (simp add: move_result Position_eq_Position)

text \<open>
  The claim C2 as it is written fails: the position is not incremented by one
  \<open>STEP_INCREMENT\<close>, it is replaced by the double nearest to the sum. At the current
  position \<open>2\<^sup>4\<^sup>7\<close> with target \<open>2\<^sup>4\<^sup>8\<close> the direction and step signals are written and the
  position stays \<open>2\<^sup>4\<^sup>7\<close>. At \<^verbatim>\<open>0.0254\<close>, which is \<open>STEP_INCREMENT + STEP_INCREMENT\<close>, with
  target 1 the new position is \<^verbatim>\<open>0.038099999999999995\<close>, which is neither the old position
  plus the double \<open>STEP_INCREMENT\<close> nor the old position plus \<open>5.08 / 400\<close>.
\<close>

theorem move_single_step_counterexample:
  "Position_lt \<lparr>pos = Fin (2 ^ 47)\<rparr> (PositionV \<lparr>pos = Fin (2 ^ 48)\<rparr>) = Inr True
   \<and> move \<lparr>step_pin = STEP_X, dir_pin = DIR_X, current_position = \<lparr>pos = Fin (2 ^ 47)\<rparr>,
           target_position = \<lparr>pos = Fin (2 ^ 48)\<rparr>, name = ''x''\<rparr>
       = Inr (\<lparr>step_pin = STEP_X, dir_pin = DIR_X, current_position = \<lparr>pos = Fin (2 ^ 47)\<rparr>,
               target_position = \<lparr>pos = Fin (2 ^ 48)\<rparr>, name = ''x''\<rparr>,
              [GPIO_output DIR_X CCW, GPIO_output STEP_X GPIO_HIGH])
   \<and> fadd STEP_INCREMENT STEP_INCREMENT = Fin (3660525777126739 / 144115188075855872)
   \<and> move \<lparr>step_pin = STEP_X, dir_pin = DIR_X,
           current_position = \<lparr>pos = Fin (3660525777126739 / 144115188075855872)\<rparr>,
           target_position = \<lparr>pos = Fin 1\<rparr>, name = ''x''\<rparr>
       = Inr (\<lparr>step_pin = STEP_X, dir_pin = DIR_X,
               current_position = \<lparr>pos = Fin (1372697166422527 / 36028797018963968)\<rparr>,
               target_position = \<lparr>pos = Fin 1\<rparr>, name = ''x''\<rparr>,
              [GPIO_output DIR_X CCW, GPIO_output STEP_X GPIO_HIGH])
   \<and> (1372697166422527 / 36028797018963968 :: rat)
       \<noteq> 3660525777126739 / 144115188075855872 + 3660525777126739 / 288230376151711744
   \<and> (1372697166422527 / 36028797018963968 :: rat)
       \<noteq> 3660525777126739 / 144115188075855872 + 5.08 / 400"
proof -
  have l: "Position_lt \<lparr>pos = Fin (2 ^ 47)\<rparr> (PositionV \<lparr>pos = Fin (2 ^ 48)\<rparr>) = Inr True"
    by (simp add: Position_lt_Position within_deadzone_def) (simp add: float_eval)
  have m1: "move \<lparr>step_pin = STEP_X, dir_pin = DIR_X, current_position = \<lparr>pos = Fin (2 ^ 47)\<rparr>,
           target_position = \<lparr>pos = Fin (2 ^ 48)\<rparr>, name = ''x''\<rparr>
       = Inr (\<lparr>step_pin = STEP_X, dir_pin = DIR_X, current_position = \<lparr>pos = Fin (2 ^ 47)\<rparr>,
               target_position = \<lparr>pos = Fin (2 ^ 48)\<rparr>, name = ''x''\<rparr>,
              [GPIO_output DIR_X CCW, GPIO_output STEP_X GPIO_HIGH])"
    by (simp add: move_result within_deadzone_def increment_def step_increase_def
        STEP_INCREMENT_value) (simp add: float_eval)
  have s2: "fadd STEP_INCREMENT STEP_INCREMENT = Fin (3660525777126739 / 144115188075855872)"
    by (simp add: STEP_INCREMENT_value) (simp add: float_eval)
  have m2: "move \<lparr>step_pin = STEP_X, dir_pin = DIR_X,
           current_position = \<lparr>pos = Fin (3660525777126739 / 144115188075855872)\<rparr>,
           target_position = \<lparr>pos = Fin 1\<rparr>, name = ''x''\<rparr>
       = Inr (\<lparr>step_pin = STEP_X, dir_pin = DIR_X,
               current_position = \<lparr>pos = Fin (1372697166422527 / 36028797018963968)\<rparr>,
               target_position = \<lparr>pos = Fin 1\<rparr>, name = ''x''\<rparr>,
              [GPIO_output DIR_X CCW, GPIO_output STEP_X GPIO_HIGH])"
    by (simp add: move_result within_deadzone_def increment_def step_increase_def
        STEP_INCREMENT_value) (simp add: float_eval)
  have n1: "(1372697166422527 / 36028797018963968 :: rat)
       \<noteq> 3660525777126739 / 144115188075855872 + 3660525777126739 / 288230376151711744"
    by simp
  have n2: "(1372697166422527 / 36028797018963968 :: rat)
       \<noteq> 3660525777126739 / 144115188075855872 + 5.08 / 400"
    by simp
  from l m1 s2 m2 n1 n2 show ?thesis by (intro conjI)
qed

text \<open>
  Claim C2, amended. \<^verbatim>\<open>move\<close> is a single step. If the current position is less than the
  target under the tolerant ordering (\<^verbatim>\<open>__lt__\<close>), the call writes the direction pin to
  \<open>CCW\<close> (the increase direction), then the step pin to \<open>HIGH\<close>, and replaces the current
  position by the float sum \<^verbatim>\<open>pos + STEP_INCREMENT\<close>: for a finite position the double
  nearest to the exact sum with the double \<open>STEP_INCREMENT\<close>, which in general is not that
  exact sum. If it is greater (the \<^verbatim>\<open>>\<close> that the code tests), the call writes the
  direction pin to \<open>CW\<close> (the decrease direction), then the step pin to \<open>HIGH\<close>, and replaces
  the current position by the float difference \<^verbatim>\<open>pos - STEP_INCREMENT\<close>. In both cases the
  direction write comes first and nothing else is written. If current and target are
  tolerantly equal, the call writes no signal and changes no position. When neither value
  is NaN and the two are not the same infinity, the test \<^verbatim>\<open>current > target\<close> is the
  less-than test with its operands swapped.
\<close>

theorem move_single_step:
  "(Position_lt (current_position a) (PositionV (target_position a)) = Inr True \<longrightarrow>
      move a =
        Inr (a\<lparr>current_position := \<lparr>pos = fadd (pos (current_position a)) STEP_INCREMENT\<rparr>\<rparr>,
             [GPIO_output (dir_pin a) CCW, GPIO_output (step_pin a) GPIO_HIGH]))
   \<and> (Position_gt (current_position a) (PositionV (target_position a)) = Inr True \<longrightarrow>
      move a =
        Inr (a\<lparr>current_position := \<lparr>pos = fsub (pos (current_position a)) STEP_INCREMENT\<rparr>\<rparr>,
             [GPIO_output (dir_pin a) CW, GPIO_output (step_pin a) GPIO_HIGH]))
   \<and> (Position_eq (current_position a) (PositionV (target_position a)) = Inr True \<longrightarrow>
      move a = Inr (a, []))
   \<and> (\<forall>c. pos (current_position a) = Fin c \<longrightarrow>
        fadd (pos (current_position a)) STEP_INCREMENT
          = round_double (c + 3660525777126739 / 288230376151711744)
        \<and> fsub (pos (current_position a)) STEP_INCREMENT
          = round_double (c - 3660525777126739 / 288230376151711744))
   \<and> (pos (current_position a) \<noteq> NaN \<and> pos (target_position a) \<noteq> NaN
        \<and> \<not> (pos (current_position a) = PInf \<and> pos (target_position a) = PInf)
        \<and> \<not> (pos (current_position a) = NInf \<and> pos (target_position a) = NInf) \<longrightarrow>
        Position_gt (current_position a) (PositionV (target_position a))
          = Position_lt (target_position a) (PositionV (current_position a)))"
proof (intro conjI impI allI)
  assume "Position_lt (current_position a) (PositionV (target_position a)) = Inr True"
  from move_less [OF this]
  show "move a =
        Inr (a\<lparr>current_position := \<lparr>pos = fadd (pos (current_position a)) STEP_INCREMENT\<rparr>\<rparr>,
             [GPIO_output (dir_pin a) CCW, GPIO_output (step_pin a) GPIO_HIGH])"
    by (simp add: increment_def step_increase_def)
next
  assume "Position_gt (current_position a) (PositionV (target_position a)) = Inr True"
  from move_greater [OF this]
  show "move a =
        Inr (a\<lparr>current_position := \<lparr>pos = fsub (pos (current_position a)) STEP_INCREMENT\<rparr>\<rparr>,
             [GPIO_output (dir_pin a) CW, GPIO_output (step_pin a) GPIO_HIGH])"
    by (simp add: decrement_def step_decrease_def)
next
  assume "Position_eq (current_position a) (PositionV (target_position a)) = Inr True"
  then show "move a = Inr (a, [])" by (rule move_equal)
next
  fix c
  assume c: "pos (current_position a) = Fin c"
  show "fadd (pos (current_position a)) STEP_INCREMENT
          = round_double (c + 3660525777126739 / 288230376151711744)"
    by (simp only: c STEP_INCREMENT_value fadd.simps)
  show "fsub (pos (current_position a)) STEP_INCREMENT
          = round_double (c - 3660525777126739 / 288230376151711744)"
    by (simp only: c STEP_INCREMENT_value fsub.simps)
next
  assume "pos (current_position a) \<noteq> NaN \<and> pos (target_position a) \<noteq> NaN
        \<and> \<not> (pos (current_position a) = PInf \<and> pos (target_position a) = PInf)
        \<and> \<not> (pos (current_position a) = NInf \<and> pos (target_position a) = NInf)"
  then show "Position_gt (current_position a) (PositionV (target_position a))
          = Position_lt (target_position a) (PositionV (current_position a))"
    by (intro Position_gt_is_lt_swapped) simp_all
qed

theorem move_single_step_witness:
  "Position_lt \<lparr>pos = Fin 0\<rparr> (PositionV \<lparr>pos = Fin 1\<rparr>) = Inr True
   \<and> move \<lparr>step_pin = 11, dir_pin = 13, current_position = \<lparr>pos = Fin 0\<rparr>,
         target_position = \<lparr>pos = Fin 1\<rparr>, name = ''x''\<rparr>
     = Inr (\<lparr>step_pin = 11, dir_pin = 13,
             current_position = \<lparr>pos = Fin (3660525777126739 / 288230376151711744)\<rparr>,
             target_position = \<lparr>pos = Fin 1\<rparr>, name = ''x''\<rparr>,
            [GPIO_output 13 0, GPIO_output 11 1])
   \<and> Position_gt \<lparr>pos = Fin 0\<rparr> (PositionV \<lparr>pos = Fin (- 1)\<rparr>) = Inr True
   \<and> Position_lt \<lparr>pos = Fin (- 1)\<rparr> (PositionV \<lparr>pos = Fin 0\<rparr>) = Inr True
   \<and> move \<lparr>step_pin = 11, dir_pin = 13, current_position = \<lparr>pos = Fin 0\<rparr>,
         target_position = \<lparr>pos = Fin (- 1)\<rparr>, name = ''x''\<rparr>
     = Inr (\<lparr>step_pin = 11, dir_pin = 13,
             current_position = \<lparr>pos = Fin (- (3660525777126739 / 288230376151711744))\<rparr>,
             target_position = \<lparr>pos = Fin (- 1)\<rparr>, name = ''x''\<rparr>,
            [GPIO_output 13 1, GPIO_output 11 1])
   \<and> Position_eq \<lparr>pos = Fin 0\<rparr> (PositionV \<lparr>pos = Fin (1 / 256)\<rparr>) = Inr True
   \<and> move \<lparr>step_pin = 11, dir_pin = 13, current_position = \<lparr>pos = Fin 0\<rparr>,
         target_position = \<lparr>pos = Fin (1 / 256)\<rparr>, name = ''x''\<rparr>
     = Inr (\<lparr>step_pin = 11, dir_pin = 13, current_position = \<lparr>pos = Fin 0\<rparr>,
             target_position = \<lparr>pos = Fin (1 / 256)\<rparr>, name = ''x''\<rparr>, [])"
proof -
  let ?up = "\<lparr>step_pin = 11, dir_pin = 13, current_position = \<lparr>pos = Fin 0\<rparr>,
         target_position = \<lparr>pos = Fin 1\<rparr>, name = ''x''\<rparr>"
  let ?down = "\<lparr>step_pin = 11, dir_pin = 13, current_position = \<lparr>pos = Fin 0\<rparr>,
         target_position = \<lparr>pos = Fin (- 1)\<rparr>, name = ''x''\<rparr>"
  let ?stay = "\<lparr>step_pin = 11, dir_pin = 13, current_position = \<lparr>pos = Fin 0\<rparr>,
         target_position = \<lparr>pos = Fin (1 / 256)\<rparr>, name = ''x''\<rparr>"
  have l: "Position_lt \<lparr>pos = Fin 0\<rparr> (PositionV \<lparr>pos = Fin 1\<rparr>) = Inr True"
    by (simp add: Position_lt_Position within_deadzone_def) (simp add: float_eval)
  have g: "Position_gt \<lparr>pos = Fin 0\<rparr> (PositionV \<lparr>pos = Fin (- 1)\<rparr>) = Inr True"
    by (simp add: Position_gt_Position within_deadzone_def) (simp add: float_eval)
  have e: "Position_eq \<lparr>pos = Fin 0\<rparr> (PositionV \<lparr>pos = Fin (1 / 256)\<rparr>) = Inr True"
    by (simp add: Position_eq_Position within_deadzone_def) (simp add: float_eval)
  have up: "fadd (Fin 0) STEP_INCREMENT = Fin (3660525777126739 / 288230376151711744)"
    by (simp add: STEP_INCREMENT_value) (simp add: float_eval)
  have down: "fsub (Fin 0) STEP_INCREMENT = Fin (- (3660525777126739 / 288230376151711744))"
    by (simp add: STEP_INCREMENT_value) (simp add: float_eval)
  from move_single_step [of ?up] l up
  have 1: "move ?up = Inr (\<lparr>step_pin = 11, dir_pin = 13,
             current_position = \<lparr>pos = Fin (3660525777126739 / 288230376151711744)\<rparr>,
             target_position = \<lparr>pos = Fin 1\<rparr>, name = ''x''\<rparr>,
            [GPIO_output 13 0, GPIO_output 11 1])"
    by (simp add: CCW_def GPIO_HIGH_def)
  from move_single_step [of ?down] g down
  have 2: "move ?down = Inr (\<lparr>step_pin = 11, dir_pin = 13,
             current_position = \<lparr>pos = Fin (- (3660525777126739 / 288230376151711744))\<rparr>,
             target_position = \<lparr>pos = Fin (- 1)\<rparr>, name = ''x''\<rparr>,
            [GPIO_output 13 1, GPIO_output 11 1])"
    by (simp add: CW_def GPIO_HIGH_def)
  from move_single_step [of ?down] g
  have 3: "Position_lt \<lparr>pos = Fin (- 1)\<rparr> (PositionV \<lparr>pos = Fin 0\<rparr>) = Inr True"
    by simp
  from move_single_step [of ?stay] e
  have 4: "move ?stay = Inr (?stay, [])"
    by simp
  from l 1 g 3 2 e 4 show ?thesis by (intro conjI)
qed

text \<open>
  Claim C9 (frame of \<^verbatim>\<open>move\<close>). For every axis, \<^verbatim>\<open>move\<close> returns without raising and
  leaves the target position unchanged, as well as the two pins and the name: the axis
  after the call differs from the axis before at most in its current position.
\<close>

theorem move_frame:
  "\<exists>a' tr. move a = Inr (a', tr)
     \<and> target_position a' = target_position a
     \<and> step_pin a' = step_pin a \<and> dir_pin a' = dir_pin a \<and> name a' = name a
     \<and> a' = a\<lparr>current_position := current_position a'\<rparr>"
  by (simp add: move_result)

section \<open>Repeated moves towards a fixed target\<close>

lemma hunting_target:
  "round_double 0.05715 = Fin (8236182998535163 / 144115188075855872)"
  by (simp add: float_eval)

lemma hunting_move_0:
  "move (hunting_axis (Fin (0))) =
     Inr (hunting_axis (Fin (3660525777126739 / 288230376151711744)),
          [GPIO_output DIR_X CCW, GPIO_output STEP_X GPIO_HIGH])"
  by (simp add: move_result hunting_axis_def hunting_target within_deadzone_def
      increment_def decrement_def step_increase_def step_decrease_def STEP_INCREMENT_value)
    (simp add: float_eval)

lemma hunting_move_1:
  "move (hunting_axis (Fin (3660525777126739 / 288230376151711744))) =
     Inr (hunting_axis (Fin (3660525777126739 / 144115188075855872)),
          [GPIO_output DIR_X CCW, GPIO_output STEP_X GPIO_HIGH])"
  by (simp add: move_result hunting_axis_def hunting_target within_deadzone_def
      increment_def decrement_def step_increase_def step_decrease_def STEP_INCREMENT_value)
    (simp add: float_eval)

lemma hunting_move_2:
  "move (hunting_axis (Fin (3660525777126739 / 144115188075855872))) =
     Inr (hunting_axis (Fin (1372697166422527 / 36028797018963968)),
          [GPIO_output DIR_X CCW, GPIO_output STEP_X GPIO_HIGH])"
  by (simp add: move_result hunting_axis_def hunting_target within_deadzone_def
      increment_def decrement_def step_increase_def step_decrease_def STEP_INCREMENT_value)
    (simp add: float_eval)

lemma hunting_move_3:
  "move (hunting_axis (Fin (1372697166422527 / 36028797018963968))) =
     Inr (hunting_axis (Fin (3660525777126739 / 72057594037927936)),
          [GPIO_output DIR_X CCW, GPIO_output STEP_X GPIO_HIGH])"
  by (simp add: move_result hunting_axis_def hunting_target within_deadzone_def
      increment_def decrement_def step_increase_def step_decrease_def STEP_INCREMENT_value)
    (simp add: float_eval)

lemma hunting_move_4:
  "move (hunting_axis (Fin (3660525777126739 / 72057594037927936))) =
     Inr (hunting_axis (Fin (571957152676053 / 9007199254740992)),
          [GPIO_output DIR_X CCW, GPIO_output STEP_X GPIO_HIGH])"
  by (simp add: move_result hunting_axis_def hunting_target within_deadzone_def
      increment_def decrement_def step_increase_def step_decrease_def STEP_INCREMENT_value)
    (simp add: float_eval)

lemma hunting_move_5:
  "move (hunting_axis (Fin (571957152676053 / 9007199254740992))) =
     Inr (hunting_axis (Fin (3660525777126739 / 72057594037927936)),
          [GPIO_output DIR_X CW, GPIO_output STEP_X GPIO_HIGH])"
  by (simp add: move_result hunting_axis_def hunting_target within_deadzone_def
      increment_def decrement_def step_increase_def step_decrease_def STEP_INCREMENT_value)
    (simp add: float_eval)

lemma hunting_out_0:
  "Axis_is_in_position (hunting_axis (Fin (0))) = Inr False"
  by (simp add: Axis_is_in_position_result hunting_axis_def hunting_target
      within_deadzone_def) (simp add: float_eval)

lemma hunting_out_1:
  "Axis_is_in_position (hunting_axis (Fin (3660525777126739 / 288230376151711744))) = Inr False"
  by (simp add: Axis_is_in_position_result hunting_axis_def hunting_target
      within_deadzone_def) (simp add: float_eval)

lemma hunting_out_2:
  "Axis_is_in_position (hunting_axis (Fin (3660525777126739 / 144115188075855872))) = Inr False"
  by (simp add: Axis_is_in_position_result hunting_axis_def hunting_target
      within_deadzone_def) (simp add: float_eval)

lemma hunting_out_3:
  "Axis_is_in_position (hunting_axis (Fin (1372697166422527 / 36028797018963968))) = Inr False"
  by (simp add: Axis_is_in_position_result hunting_axis_def hunting_target
      within_deadzone_def) (simp add: float_eval)

lemma hunting_out_4:
  "Axis_is_in_position (hunting_axis (Fin (3660525777126739 / 72057594037927936))) = Inr False"
  by (simp add: Axis_is_in_position_result hunting_axis_def hunting_target
      within_deadzone_def) (simp add: float_eval)

lemma hunting_out_5:
  "Axis_is_in_position (hunting_axis (Fin (571957152676053 / 9007199254740992))) = Inr False"
  by (simp add: Axis_is_in_position_result hunting_axis_def hunting_target
      within_deadzone_def) (simp add: float_eval)

lemma hunting_step:
  assumes "c \<in> set hunting_positions"
  shows "\<exists>c' tr. move (hunting_axis c) = Inr (hunting_axis c', tr)
    \<and> c' \<in> set hunting_positions"
  using assms hunting_move_0 hunting_move_1 hunting_move_2 hunting_move_3 hunting_move_4
    hunting_move_5
  by (auto simp add: hunting_positions_def)

lemma hunting_out:
  assumes "c \<in> set hunting_positions"
  shows "Axis_is_in_position (hunting_axis c) = Inr False"
  using assms hunting_out_0 hunting_out_1 hunting_out_2 hunting_out_3 hunting_out_4
    hunting_out_5
  by (auto simp add: hunting_positions_def)

lemma hunting_forever:
  "c \<in> set hunting_positions \<Longrightarrow>
     \<exists>c' tr. move_times n (hunting_axis c) = Inr (hunting_axis c', tr)
       \<and> c' \<in> set hunting_positions"
proof (induction n arbitrary: c)
  case 0
  then have "move_times 0 (hunting_axis c) = Inr (hunting_axis c, [])
      \<and> c \<in> set hunting_positions"
    by simp
  then show ?case by blast
next
  case (Suc n)
  from hunting_step [OF Suc.prems] obtain c1 tr1 where
    m: "move (hunting_axis c) = Inr (hunting_axis c1, tr1)"
    and c1: "c1 \<in> set hunting_positions"
    by blast
  from Suc.IH [OF c1] obtain c2 tr2 where
    r: "move_times n (hunting_axis c1) = Inr (hunting_axis c2, tr2)"
    and c2: "c2 \<in> set hunting_positions"
    by blast
  from m r have "move_times (Suc n) (hunting_axis c) = Inr (hunting_axis c2, tr1 @ tr2)"
    by (simp add: bind_err_def)
  with c2 show ?case by blast
qed

text \<open>
  Claim C5 (convergence) is what the program is meant to do and does not do. The x axis as
  \<^verbatim>\<open>run\<close> builds it stands at \<^verbatim>\<open>0.0\<close>; with the target \<^verbatim>\<open>0.05715\<close> assigned, the claimed bound
  is 5 calls of \<^verbatim>\<open>move\<close>. After four calls the position is \<^verbatim>\<open>0.0508\<close>, half a step below the
  target in exact arithmetic; the double difference is one unit in the last place above
  the double \<open>STEP_INCREMENT / 2\<close>, so the axis is out of position, steps up to \<^verbatim>\<open>0.0635\<close>,
  is out of position again, steps back down to \<^verbatim>\<open>0.0508\<close>, and so on: after no number of
  calls does \<^verbatim>\<open>is_in_position\<close> return true.
\<close>

theorem move_hunts:
  "(\<forall>n. \<exists>a' tr. move_times n (hunting_axis (Fin 0)) = Inr (a', tr)
         \<and> Axis_is_in_position a' = Inr False)
   \<and> hunting_axis (Fin 0)
       = set_target_position (Axis_init STEP_X DIR_X ''x'') (round_double 0.05715)
   \<and> round_double 0.05715 = Fin (8236182998535163 / 144115188075855872)
   \<and> STEP_INCREMENT = Fin (3660525777126739 / 288230376151711744)
   \<and> \<lceil>\<bar>8236182998535163 / 144115188075855872 - 0\<bar>
        / (3660525777126739 / 288230376151711744 :: rat)\<rceil> = 5
   \<and> \<lceil>\<bar>0.05715 - 0\<bar> / (5.08 / 400 :: rat)\<rceil> = 5"
proof (intro conjI allI)
  fix n
  have "Fin 0 \<in> set hunting_positions"
    by (simp add: hunting_positions_def)
  from hunting_forever [OF this, of n] obtain c' tr where
    "move_times n (hunting_axis (Fin 0)) = Inr (hunting_axis c', tr)"
    and "c' \<in> set hunting_positions"
    by blast
  with hunting_out [of c']
  have "move_times n (hunting_axis (Fin 0)) = Inr (hunting_axis c', tr)
      \<and> Axis_is_in_position (hunting_axis c') = Inr False"
    by simp
  then show "\<exists>a' tr. move_times n (hunting_axis (Fin 0)) = Inr (a', tr)
         \<and> Axis_is_in_position a' = Inr False"
    by blast
next
  show "hunting_axis (Fin 0)
       = set_target_position (Axis_init STEP_X DIR_X ''x'') (round_double 0.05715)"
    by (simp add: hunting_axis_def set_target_position_def Axis_init_def Position_init_def)
  show "round_double 0.05715 = Fin (8236182998535163 / 144115188075855872)"
    by (rule hunting_target)
  show "STEP_INCREMENT = Fin (3660525777126739 / 288230376151711744)"
    by (rule STEP_INCREMENT_value)
  show "\<lceil>\<bar>8236182998535163 / 144115188075855872 - 0\<bar>
        / (3660525777126739 / 288230376151711744 :: rat)\<rceil> = 5"
    by (simp add: ceiling_rat_numeral)
  show "\<lceil>\<bar>0.05715 - 0\<bar> / (5.08 / 400 :: rat)\<rceil> = 5"
    by (simp add: ceiling_rat_numeral)
qed

section \<open>Command ingestion\<close>

lemma targets_getitem_Some: "targets d k = Some v \<Longrightarrow> targets_getitem d k = Inr v"
  by (simp add: targets_getitem_def)

lemma targets_getitem_Inr: "targets_getitem d k = Inr v \<longleftrightarrow> targets d k = Some v"
  by (simp add: targets_getitem_def split: option.splits)

lemma zero_if_cmd_set:
  "zero_cmd d \<Longrightarrow>
     zero_if_cmd d axes =
       (d\<lparr>zero_cmd := False\<rparr>,
        map (\<lambda>axis. axis\<lparr>current_position := (current_position axis)\<lparr>pos := Fin 0\<rparr>,
                          target_position := (target_position axis)\<lparr>pos := Fin 0\<rparr>\<rparr>) axes)"
  by (simp add: zero_if_cmd_def set_target_position_def set_current_position_def)

lemma zero_if_cmd_unset: "\<not> zero_cmd d \<Longrightarrow> zero_if_cmd d axes = (d, axes)"
  by (simp add: zero_if_cmd_def)

lemma ingest_commands_returns:
  assumes "targets (data s) ''x'' = Some tx" and "targets (data s) ''y'' = Some ty"
    and "targets (data s) ''z'' = Some tz" and "targets (data s) ''a'' = Some ta"
    and "targets (data s) ''b'' = Some tb"
  shows "ingest_commands s =
     Inr \<lparr>x_axis = set_target_position (snd (zero_if_cmd (data s) (axes_of s)) ! 0) tx,
          y_axis = set_target_position (snd (zero_if_cmd (data s) (axes_of s)) ! 1) ty,
          z_axis = set_target_position (snd (zero_if_cmd (data s) (axes_of s)) ! 2) tz,
          a_axis = set_target_position (snd (zero_if_cmd (data s) (axes_of s)) ! 3) ta,
          b_axis = set_target_position (snd (zero_if_cmd (data s) (axes_of s)) ! 4) tb,
          data = fst (zero_if_cmd (data s) (axes_of s))\<rparr>"
proof -
  have "targets (fst (zero_if_cmd (data s) (axes_of s))) = targets (data s)"
    by (simp add: zero_if_cmd_def)
  then show ?thesis
    using assms
    by (auto simp add: ingest_commands_def targets_getitem_def bind_err_def split: prod.splits)
qed

lemma ingest_commands_Inr:
  assumes "ingest_commands s = Inr s1"
  shows "\<exists>tx ty tz ta tb. targets (data s) ''x'' = Some tx \<and> targets (data s) ''y'' = Some ty
    \<and> targets (data s) ''z'' = Some tz \<and> targets (data s) ''a'' = Some ta
    \<and> targets (data s) ''b'' = Some tb"
proof -
  have t: "targets (fst (zero_if_cmd (data s) (axes_of s))) = targets (data s)"
    by (simp add: zero_if_cmd_def)
  show ?thesis
    using assms t
    by (auto simp add: ingest_commands_def targets_getitem_def bind_err_def
        split: prod.splits option.splits)
qed

text \<open>
  The claim C1 as it is written fails. In \<open>zero_example\<close> every axis has a non-zero current
  and target position and the zero flag is set; after the zero check and the target
  assignments of the same cycle the axes report current position 0, but the target positions
  are the commanded targets 1 to 5 again, not 0.
\<close>

theorem zero_command_counterexample:
  "report zero_example = ([(Fin 1, Fin 1), (Fin 2, Fin 2), (Fin 3, Fin 3), (Fin 4, Fin 4), (Fin 5, Fin 5)],
         True)
   \<and> map_sum id report (ingest_commands zero_example)
       = Inr ([(Fin 0, Fin 1), (Fin 0, Fin 2), (Fin 0, Fin 3), (Fin 0, Fin 4), (Fin 0, Fin 5)],
              False)
   \<and> map_sum id report (ingest_commands zero_example)
       \<noteq> Inr ([(Fin 0, Fin 0), (Fin 0, Fin 0), (Fin 0, Fin 0), (Fin 0, Fin 0), (Fin 0, Fin 0)],
              False)"
  by (simp add: report_def zero_example_def axes_of_def get_current_position_def
      get_target_position_def ingest_commands_def zero_if_cmd_def targets_getitem_def
      bind_err_def set_target_position_def set_current_position_def)

text \<open>
  Claim C1, amended. For every controller state in which the zero flag is set and the
  command source holds a target for each of the five axes (whatever the positions of the
  axes are): the zero check alone leaves every axis with current position 0 and target
  position 0 and clears the flag; after the target assignments of the same cycle, every
  axis reports current position 0 and, as its target position, the value the command source
  holds for that axis, and the zero flag reads false.
\<close>

theorem zero_command:
  assumes "zero_cmd (data s)"
    and "targets (data s) ''x'' = Some tx" and "targets (data s) ''y'' = Some ty"
    and "targets (data s) ''z'' = Some tz" and "targets (data s) ''a'' = Some ta"
    and "targets (data s) ''b'' = Some tb"
  shows "map_sum id report (ingest_commands s)
           = Inr ([(Fin 0, tx), (Fin 0, ty), (Fin 0, tz), (Fin 0, ta), (Fin 0, tb)], False)
    \<and> map (\<lambda>axis. (get_current_position axis, get_target_position axis))
          (snd (zero_if_cmd (data s) (axes_of s)))
        = [(Fin 0, Fin 0), (Fin 0, Fin 0), (Fin 0, Fin 0), (Fin 0, Fin 0), (Fin 0, Fin 0)]
    \<and> \<not> zero_cmd (fst (zero_if_cmd (data s) (axes_of s)))"
  using assms
  by (simp add: ingest_commands_returns [OF assms(2-6)] zero_if_cmd_set report_def axes_of_def
      get_current_position_def get_target_position_def set_target_position_def)

theorem zero_command_witness:
  "zero_cmd (data zero_example)
   \<and> targets (data zero_example) ''x'' = Some (Fin 1)
   \<and> targets (data zero_example) ''y'' = Some (Fin 2)
   \<and> targets (data zero_example) ''z'' = Some (Fin 3)
   \<and> targets (data zero_example) ''a'' = Some (Fin 4)
   \<and> targets (data zero_example) ''b'' = Some (Fin 5)
   \<and> map_sum id report (ingest_commands zero_example)
           = Inr ([(Fin 0, Fin 1), (Fin 0, Fin 2), (Fin 0, Fin 3), (Fin 0, Fin 4), (Fin 0, Fin 5)],
              False)"
proof -
  have h: "zero_cmd (data zero_example)"
    "targets (data zero_example) ''x'' = Some (Fin 1)"
    "targets (data zero_example) ''y'' = Some (Fin 2)"
    "targets (data zero_example) ''z'' = Some (Fin 3)"
    "targets (data zero_example) ''a'' = Some (Fin 4)"
    "targets (data zero_example) ''b'' = Some (Fin 5)"
    by (simp_all add: zero_example_def)
  show ?thesis
    using h zero_command [OF h] by simp
qed

section \<open>Properties of one loop iteration\<close>

lemma is_in_position_result:
  "is_in_position axes = Inr (list_all (\<lambda>axis. Axis_is_in_position axis = Inr True) axes)"
  by (induction axes) (auto simp add: bind_err_def Axis_is_in_position_result)

lemma move_returns:
  "\<exists>a' tr. move a = Inr (a', tr) \<and> step_pin a' = step_pin a \<and> dir_pin a' = dir_pin a"
  by (simp add: move_result)

lemma ingest_commands_wired:
  assumes "ingest_commands s = Inr s1" and "wired s"
  shows "wired s1"
proof -
  from ingest_commands_Inr [OF assms(1)] obtain tx ty tz ta tb where
    t: "targets (data s) ''x'' = Some tx" "targets (data s) ''y'' = Some ty"
      "targets (data s) ''z'' = Some tz" "targets (data s) ''a'' = Some ta"
      "targets (data s) ''b'' = Some tb"
    by blast
  show ?thesis
    using assms
    by (cases "zero_cmd (data s)")
      (auto simp add: ingest_commands_returns [OF t] zero_if_cmd_set zero_if_cmd_unset
        wired_def axes_of_def set_target_position_def)
qed

lemma move_or_sleep_moving:
  assumes "wired s" and "is_in_position (axes_of s) = Inr False"
  shows "\<exists>s' mv. move_or_sleep s =
      Inr (s', GPIO_output SLEEP GPIO_HIGH # mv
            @ [time_sleep 0.00075,
               GPIO_output STEP_X GPIO_LOW, GPIO_output STEP_Y GPIO_LOW,
               GPIO_output STEP_Z GPIO_LOW, GPIO_output STEP_A GPIO_LOW,
               GPIO_output STEP_B GPIO_LOW,
               time_sleep 0.00075])
      \<and> wired s'"
proof -
  obtain x ex where x: "move (x_axis s) = Inr (x, ex)"
    and px: "step_pin x = step_pin (x_axis s)" "dir_pin x = dir_pin (x_axis s)"
    using move_returns [of "x_axis s"] by blast
  obtain y ey where y: "move (y_axis s) = Inr (y, ey)"
    and py: "step_pin y = step_pin (y_axis s)" "dir_pin y = dir_pin (y_axis s)"
    using move_returns [of "y_axis s"] by blast
  obtain z ez where z: "move (z_axis s) = Inr (z, ez)"
    and pz: "step_pin z = step_pin (z_axis s)" "dir_pin z = dir_pin (z_axis s)"
    using move_returns [of "z_axis s"] by blast
  obtain a ea where a: "move (a_axis s) = Inr (a, ea)"
    and pa: "step_pin a = step_pin (a_axis s)" "dir_pin a = dir_pin (a_axis s)"
    using move_returns [of "a_axis s"] by blast
  obtain b eb where b: "move (b_axis s) = Inr (b, eb)"
    and pb: "step_pin b = step_pin (b_axis s)" "dir_pin b = dir_pin (b_axis s)"
    using move_returns [of "b_axis s"] by blast
  have w: "step_pin (x_axis s) = STEP_X" "step_pin (y_axis s) = STEP_Y"
    "step_pin (z_axis s) = STEP_Z" "step_pin (a_axis s) = STEP_A"
    "step_pin (b_axis s) = STEP_B"
    "dir_pin (x_axis s) = DIR_X" "dir_pin (y_axis s) = DIR_Y"
    "dir_pin (z_axis s) = DIR_Z" "dir_pin (a_axis s) = DIR_A"
    "dir_pin (b_axis s) = DIR_B"
    using assms(1) by (simp_all add: wired_def axes_of_def)
  have "move_or_sleep s =
      Inr (s\<lparr>x_axis := x, y_axis := y, z_axis := z, a_axis := a, b_axis := b\<rparr>,
           GPIO_output SLEEP GPIO_HIGH # (ex @ ey @ ez @ ea @ eb)
            @ [time_sleep 0.00075,
               GPIO_output STEP_X GPIO_LOW, GPIO_output STEP_Y GPIO_LOW,
               GPIO_output STEP_Z GPIO_LOW, GPIO_output STEP_A GPIO_LOW,
               GPIO_output STEP_B GPIO_LOW,
               time_sleep 0.00075])"
    using assms(2) x y z a b
    by (simp add: move_or_sleep_def bind_err_def wake_up_def pulse_low_def px py pz pa pb w)
  moreover have "wired (s\<lparr>x_axis := x, y_axis := y, z_axis := z, a_axis := a, b_axis := b\<rparr>)"
    by (simp add: wired_def axes_of_def px py pz pa pb w)
  ultimately show ?thesis by blast
qed

lemma run_init_wired: "wired (run_init d)"
  by (simp add: wired_def run_init_def axes_of_def Axis_init_def)

lemma move_or_sleep_wired:
  assumes "wired s" and "move_or_sleep s = Inr (s', tr)"
  shows "wired s'"
proof (cases "list_all (\<lambda>axis. Axis_is_in_position axis = Inr True) (axes_of s)")
  case True
  then have "move_or_sleep s = Inr (s, sleep)"
    by (simp add: move_or_sleep_def is_in_position_result bind_err_def)
  with assms show ?thesis by simp
next
  case False
  then have "is_in_position (axes_of s) = Inr False"
    by (simp add: is_in_position_result)
  from move_or_sleep_moving [OF assms(1) this] assms(2) show ?thesis by auto
qed

lemma run_iteration_wired:
  assumes "wired s" and "run_iteration s = Inr (s', tr)"
  shows "wired s'"
proof (cases "ingest_commands s")
  case (Inl e)
  with assms(2) show ?thesis by (simp add: run_iteration_def bind_err_def)
next
  case (Inr s1)
  then have "wired s1" using assms(1) by (rule ingest_commands_wired)
  moreover have "move_or_sleep s1 = Inr (s', tr)"
    using assms(2) Inr by (simp add: run_iteration_def bind_err_def)
  ultimately show ?thesis by (rule move_or_sleep_wired)
qed

lemma run_loop_wired:
  "wired s \<Longrightarrow> run_loop ws s = Inr (s', tr) \<Longrightarrow> wired s'"
proof (induction ws arbitrary: s tr)
  case Nil
  then show ?case by simp
next
  case (Cons w ws)
  from Cons.prems(2) obtain s1 tr1 tr2 where
    it: "run_iteration (s\<lparr>data := w (data s)\<rparr>) = Inr (s1, tr1)"
    and rest: "run_loop ws s1 = Inr (s', tr2)"
    by (auto simp add: bind_err_def split: sum.splits prod.splits)
  have "wired (s\<lparr>data := w (data s)\<rparr>)"
    using Cons.prems(1) by (simp add: wired_def axes_of_def)
  from run_iteration_wired [OF this it] have "wired s1" .
  from Cons.IH [OF this rest] show ?case .
qed

lemma wake_first:
  assumes "tr = GPIO_output SLEEP GPIO_HIGH # rest"
    and "i < length tr"
    and "tr ! i \<in> {GPIO_output STEP_X GPIO_HIGH, GPIO_output STEP_Y GPIO_HIGH,
            GPIO_output STEP_Z GPIO_HIGH, GPIO_output STEP_A GPIO_HIGH,
            GPIO_output STEP_B GPIO_HIGH}"
  shows "\<exists>j<i. tr ! j = GPIO_output SLEEP GPIO_HIGH"
proof -
  have "i \<noteq> 0"
  proof
    assume "i = 0"
    with assms(1,3) show False
      by (simp add: SLEEP_def STEP_X_def STEP_Y_def STEP_Z_def STEP_A_def STEP_B_def)
  qed
  then have "0 < i \<and> tr ! 0 = GPIO_output SLEEP GPIO_HIGH"
    using assms(1) by simp
  then show ?thesis by blast
qed

text \<open>
  Claim C6 (full move cycle). Take an iteration of the loop of \<^verbatim>\<open>run\<close> (the pins are
  those of \<^verbatim>\<open>run\<close>) in which command ingestion returns and at least one axis is then out
  of position. The iteration returns, and its sequence of effects begins with the write of
  \<open>HIGH\<close> to the sleep pin (wake), followed by the writes of the five \<^verbatim>\<open>move\<close> calls, the
  dwell, a write of \<open>LOW\<close> to the step pin of every one of the five axes (\<^verbatim>\<open>pulse_low\<close>,
  whether the axis moved or not) and the second dwell. So every write of \<open>HIGH\<close> to a step
  pin has the wake write somewhere before it.
\<close>

theorem move_cycle:
  assumes "wired s" and "ingest_commands s = Inr s1"
    and "\<exists>axis \<in> set (axes_of s1). Axis_is_in_position axis = Inr False"
  shows "\<exists>s' tr mv. run_iteration s = Inr (s', tr)
      \<and> tr = GPIO_output SLEEP GPIO_HIGH # mv
            @ [time_sleep 0.00075,
               GPIO_output STEP_X GPIO_LOW, GPIO_output STEP_Y GPIO_LOW,
               GPIO_output STEP_Z GPIO_LOW, GPIO_output STEP_A GPIO_LOW,
               GPIO_output STEP_B GPIO_LOW,
               time_sleep 0.00075]
      \<and> (\<forall>i<length tr.
            tr ! i \<in> {GPIO_output STEP_X GPIO_HIGH, GPIO_output STEP_Y GPIO_HIGH,
              GPIO_output STEP_Z GPIO_HIGH, GPIO_output STEP_A GPIO_HIGH,
              GPIO_output STEP_B GPIO_HIGH}
            \<longrightarrow> (\<exists>j<i. tr ! j = GPIO_output SLEEP GPIO_HIGH))
      \<and> map step_pin (axes_of s') = [STEP_X, STEP_Y, STEP_Z, STEP_A, STEP_B]"
proof -
  have w1: "wired s1"
    using assms(1,2) by (rule ingest_commands_wired [rotated])
  from assms(3) obtain axis where "axis \<in> set (axes_of s1)"
    and "Axis_is_in_position axis \<noteq> Inr True"
    by fastforce
  then have "\<not> list_all (\<lambda>axis. Axis_is_in_position axis = Inr True) (axes_of s1)"
    by (auto simp add: list_all_iff)
  then have "is_in_position (axes_of s1) = Inr False"
    by (simp add: is_in_position_result)
  from move_or_sleep_moving [OF w1 this] obtain s' mv where
    r: "move_or_sleep s1 =
      Inr (s', GPIO_output SLEEP GPIO_HIGH # mv
            @ [time_sleep 0.00075,
               GPIO_output STEP_X GPIO_LOW, GPIO_output STEP_Y GPIO_LOW,
               GPIO_output STEP_Z GPIO_LOW, GPIO_output STEP_A GPIO_LOW,
               GPIO_output STEP_B GPIO_LOW,
               time_sleep 0.00075])"
    and w': "wired s'"
    by blast
  let ?tr = "GPIO_output SLEEP GPIO_HIGH # mv
            @ [time_sleep 0.00075,
               GPIO_output STEP_X GPIO_LOW, GPIO_output STEP_Y GPIO_LOW,
               GPIO_output STEP_Z GPIO_LOW, GPIO_output STEP_A GPIO_LOW,
               GPIO_output STEP_B GPIO_LOW,
               time_sleep 0.00075]"
  have run: "run_iteration s = Inr (s', ?tr)"
    using assms(2) r by (simp add: run_iteration_def bind_err_def)
  have first: "\<forall>i<length ?tr.
            ?tr ! i \<in> {GPIO_output STEP_X GPIO_HIGH, GPIO_output STEP_Y GPIO_HIGH,
              GPIO_output STEP_Z GPIO_HIGH, GPIO_output STEP_A GPIO_HIGH,
              GPIO_output STEP_B GPIO_HIGH}
            \<longrightarrow> (\<exists>j<i. ?tr ! j = GPIO_output SLEEP GPIO_HIGH)"
  proof (intro allI impI)
    fix i
    assume "i < length ?tr"
      and "?tr ! i \<in> {GPIO_output STEP_X GPIO_HIGH, GPIO_output STEP_Y GPIO_HIGH,
              GPIO_output STEP_Z GPIO_HIGH, GPIO_output STEP_A GPIO_HIGH,
              GPIO_output STEP_B GPIO_HIGH}"
    then show "\<exists>j<i. ?tr ! j = GPIO_output SLEEP GPIO_HIGH"
      by (rule wake_first [OF refl])
  qed
  have pins: "map step_pin (axes_of s') = [STEP_X, STEP_Y, STEP_Z, STEP_A, STEP_B]"
    using w' by (simp add: wired_def)
  show ?thesis
  proof (intro exI conjI)
    show "run_iteration s = Inr (s', ?tr)" by (rule run)
    show "?tr = GPIO_output SLEEP GPIO_HIGH # mv
            @ [time_sleep 0.00075,
               GPIO_output STEP_X GPIO_LOW, GPIO_output STEP_Y GPIO_LOW,
               GPIO_output STEP_Z GPIO_LOW, GPIO_output STEP_A GPIO_LOW,
               GPIO_output STEP_B GPIO_LOW,
               time_sleep 0.00075]" by (rule refl)
    show "\<forall>i<length ?tr.
            ?tr ! i \<in> {GPIO_output STEP_X GPIO_HIGH, GPIO_output STEP_Y GPIO_HIGH,
              GPIO_output STEP_Z GPIO_HIGH, GPIO_output STEP_A GPIO_HIGH,
              GPIO_output STEP_B GPIO_HIGH}
            \<longrightarrow> (\<exists>j<i. ?tr ! j = GPIO_output SLEEP GPIO_HIGH)" by (rule first)
    show "map step_pin (axes_of s') = [STEP_X, STEP_Y, STEP_Z, STEP_A, STEP_B]" by (rule pins)
  qed
qed

theorem move_cycle_witness:
  "wired moving_example
   \<and> ingest_commands moving_example
       = Inr (moving_example
               \<lparr>x_axis := (x_axis moving_example)\<lparr>target_position := \<lparr>pos = Fin 1\<rparr>\<rparr>\<rparr>)
   \<and> Axis_is_in_position
         (x_axis (moving_example
               \<lparr>x_axis := (x_axis moving_example)\<lparr>target_position := \<lparr>pos = Fin 1\<rparr>\<rparr>\<rparr>))
       = Inr False
   \<and> (\<exists>s' mv. run_iteration moving_example =
         Inr (s', GPIO_output SLEEP GPIO_HIGH # mv
            @ [time_sleep 0.00075,
               GPIO_output STEP_X GPIO_LOW, GPIO_output STEP_Y GPIO_LOW,
               GPIO_output STEP_Z GPIO_LOW, GPIO_output STEP_A GPIO_LOW,
               GPIO_output STEP_B GPIO_LOW,
               time_sleep 0.00075])
      \<and> map step_pin (axes_of s') = [STEP_X, STEP_Y, STEP_Z, STEP_A, STEP_B])"
proof -
  let ?s1 = "moving_example\<lparr>x_axis := (x_axis moving_example)\<lparr>target_position := \<lparr>pos = Fin 1\<rparr>\<rparr>\<rparr>"
  have h1: "wired moving_example"
    by (simp add: moving_example_def wired_def run_init_def axes_of_def Axis_init_def)
  have h2: "ingest_commands moving_example = Inr ?s1"
    by (simp add: ingest_commands_def zero_if_cmd_def targets_getitem_def bind_err_def
        moving_example_def run_init_def axes_of_def Axis_init_def Position_init_def
        set_target_position_def)
  have x: "Axis_is_in_position (x_axis ?s1) = Inr False"
    by (simp add: Axis_is_in_position_result within_deadzone_def moving_example_def
        run_init_def Axis_init_def Position_init_def) (simp add: float_eval)
  then have h3: "\<exists>axis \<in> set (axes_of ?s1). Axis_is_in_position axis = Inr False"
    by (simp add: axes_of_def)
  from move_cycle [OF h1 h2 h3] obtain s' tr mv where
    c: "run_iteration moving_example = Inr (s', tr)
      \<and> tr = GPIO_output SLEEP GPIO_HIGH # mv
            @ [time_sleep 0.00075,
               GPIO_output STEP_X GPIO_LOW, GPIO_output STEP_Y GPIO_LOW,
               GPIO_output STEP_Z GPIO_LOW, GPIO_output STEP_A GPIO_LOW,
               GPIO_output STEP_B GPIO_LOW,
               time_sleep 0.00075]
      \<and> (\<forall>i<length tr.
            tr ! i \<in> {GPIO_output STEP_X GPIO_HIGH, GPIO_output STEP_Y GPIO_HIGH,
              GPIO_output STEP_Z GPIO_HIGH, GPIO_output STEP_A GPIO_HIGH,
              GPIO_output STEP_B GPIO_HIGH}
            \<longrightarrow> (\<exists>j<i. tr ! j = GPIO_output SLEEP GPIO_HIGH))
      \<and> map step_pin (axes_of s') = [STEP_X, STEP_Y, STEP_Z, STEP_A, STEP_B]"
    by (elim exE) (rule that)
  note r = c [THEN conjunct1]
    and t = c [THEN conjunct2, THEN conjunct1]
    and p = c [THEN conjunct2, THEN conjunct2, THEN conjunct2]
  have r': "run_iteration moving_example =
         Inr (s', GPIO_output SLEEP GPIO_HIGH # mv
            @ [time_sleep 0.00075,
               GPIO_output STEP_X GPIO_LOW, GPIO_output STEP_Y GPIO_LOW,
               GPIO_output STEP_Z GPIO_LOW, GPIO_output STEP_A GPIO_LOW,
               GPIO_output STEP_B GPIO_LOW,
               time_sleep 0.00075])"
    using r unfolding t .
  from r' p have "\<exists>s' mv. run_iteration moving_example =
         Inr (s', GPIO_output SLEEP GPIO_HIGH # mv
            @ [time_sleep 0.00075,
               GPIO_output STEP_X GPIO_LOW, GPIO_output STEP_Y GPIO_LOW,
               GPIO_output STEP_Z GPIO_LOW, GPIO_output STEP_A GPIO_LOW,
               GPIO_output STEP_B GPIO_LOW,
               time_sleep 0.00075])
      \<and> map step_pin (axes_of s') = [STEP_X, STEP_Y, STEP_Z, STEP_A, STEP_B]"
    by (intro exI conjI)
  with h1 h2 x show ?thesis by (intro conjI)
qed

lemma moving_example_run:
  "run_iteration moving_example =
     Inr (moving_example
            \<lparr>x_axis := (x_axis moving_example)
               \<lparr>current_position := \<lparr>pos = Fin (3660525777126739 / 288230376151711744)\<rparr>,
                target_position := \<lparr>pos = Fin 1\<rparr>\<rparr>\<rparr>,
          [GPIO_output 15 1, GPIO_output 13 0, GPIO_output 11 1, time_sleep (3 / 4000),
           GPIO_output 11 0, GPIO_output 10 0, GPIO_output 38 0, GPIO_output 21 0,
           GPIO_output 3 0, time_sleep (3 / 4000)])"
  by (simp add: run_iteration_def ingest_commands_def zero_if_cmd_def targets_getitem_def
      bind_err_def moving_example_def run_init_def axes_of_def Axis_init_def Position_init_def
      set_target_position_def move_or_sleep_def Axis_is_in_position_result move_result
      within_deadzone_def STEP_INCREMENT_value increment_def step_increase_def pulse_low_def
      wake_up_def SLEEP_def STEP_X_def STEP_Y_def STEP_Z_def STEP_A_def STEP_B_def DIR_X_def
      GPIO_HIGH_def GPIO_LOW_def CCW_def)
    (simp add: float_eval)

text \<open>
  Claim C7 (full idle cycle). Take an iteration of the loop of \<^verbatim>\<open>run\<close> in which command
  ingestion returns and all five axes are then in position. The iteration returns the state
  left by ingestion, and its only effect is the write of \<open>LOW\<close> to the sleep pin: no step
  pin and no direction pin of any axis is written, and there is no \<^verbatim>\<open>time.sleep\<close>.
\<close>

theorem idle_cycle:
  assumes "wired s" and "ingest_commands s = Inr s1"
    and "\<forall>axis \<in> set (axes_of s1). Axis_is_in_position axis = Inr True"
  shows "\<exists>tr. run_iteration s = Inr (s1, tr)
      \<and> tr = [GPIO_output SLEEP GPIO_LOW]
      \<and> (\<forall>p l. GPIO_output p l \<in> set tr \<longrightarrow>
            p \<notin> set (map step_pin (axes_of s1)) \<and> p \<notin> set (map dir_pin (axes_of s1)))
      \<and> (\<forall>d. time_sleep d \<notin> set tr)"
proof -
  have w1: "wired s1"
    using assms(1,2) by (rule ingest_commands_wired [rotated])
  have "is_in_position (axes_of s1) = Inr True"
    using assms(3) by (simp add: is_in_position_result list_all_iff)
  then have run: "run_iteration s = Inr (s1, [GPIO_output SLEEP GPIO_LOW])"
    using assms(2) by (simp add: run_iteration_def move_or_sleep_def bind_err_def sleep_def)
  have "SLEEP \<notin> set (map step_pin (axes_of s1)) \<and> SLEEP \<notin> set (map dir_pin (axes_of s1))"
    using w1
    by (simp add: wired_def SLEEP_def STEP_X_def STEP_Y_def STEP_Z_def STEP_A_def STEP_B_def
        DIR_X_def DIR_Y_def DIR_Z_def DIR_A_def DIR_B_def)
  with run show ?thesis by simp
qed

theorem idle_cycle_witness:
  "wired idle_example
   \<and> ingest_commands idle_example = Inr idle_example
   \<and> map Axis_is_in_position (axes_of idle_example)
       = [Inr True, Inr True, Inr True, Inr True, Inr True]
   \<and> run_iteration idle_example = Inr (idle_example, [GPIO_output SLEEP GPIO_LOW])"
proof -
  have h1: "wired idle_example"
    by (simp add: idle_example_def wired_def run_init_def axes_of_def Axis_init_def)
  have h2: "ingest_commands idle_example = Inr idle_example"
    by (simp add: ingest_commands_def zero_if_cmd_def targets_getitem_def bind_err_def
        idle_example_def run_init_def axes_of_def Axis_init_def Position_init_def
        set_target_position_def)
  have m: "map Axis_is_in_position (axes_of idle_example)
       = [Inr True, Inr True, Inr True, Inr True, Inr True]"
    by (simp add: Axis_is_in_position_result within_deadzone_def idle_example_def
        run_init_def axes_of_def Axis_init_def Position_init_def round_double_0)
  have h3: "\<forall>axis \<in> set (axes_of idle_example). Axis_is_in_position axis = Inr True"
    by (simp add: Axis_is_in_position_result within_deadzone_def idle_example_def
        run_init_def axes_of_def Axis_init_def Position_init_def round_double_0)
  from idle_cycle [OF h1 h2 h3] have "run_iteration idle_example
      = Inr (idle_example, [GPIO_output SLEEP GPIO_LOW])"
    by simp
  with h1 h2 m show ?thesis by (intro conjI)
qed

end
